theory Spec2Isabelle
  imports Main "HOL-Library.Sublist"
begin

text \<open>
  A model of the search SDK: the debug hook (utils/debug.ts), the aggregation engine
  \<open>webSearch\<close> (index.ts) and the Perplexity, Parallel and Arxiv adapters
  (providers/perplexity.ts, providers/parallel.ts, providers/arxiv.ts). A promise is the
  value it settles with: \<open>Inr\<close> for a resolved value, \<open>Inl\<close> for the value a rejection
  carries. A function that throws returns \<open>Inl\<close> of the thrown value.
\<close>

section \<open>JavaScript values, thrown values and string helpers\<close>

text \<open>
  Strings are lists of code units; the model covers code units below 256 (\<^typ>\<open>char\<close>).
  A field that may be missing or \<^verbatim>\<open>undefined\<close> at run time is an \<^typ>\<open>'a option\<close>.
  \<^verbatim>\<open>unknown\<close> data (log payloads, request bodies) is a \<open>jsval\<close>.
\<close>

datatype jsval =
    JUndefined
  | JNull
  | JBool bool
  | JNum int
  | JStr string
  | JArr "jsval list"
  | JObj "(string \<times> jsval) list"

text \<open>
  What a \<^verbatim>\<open>catch\<close> clause can receive: an \<^verbatim>\<open>HttpError\<close> (message, statusCode,
  parsedResponseBody), any other \<^verbatim>\<open>Error\<close> (message), or a value that is not an
  \<^verbatim>\<open>Error\<close>, kept as its \<^verbatim>\<open>String(error)\<close> rendering.
\<close>

datatype thrown =
    HttpError string int jsval
  | Error string
  | NonError string

text \<open>\<^verbatim>\<open>error instanceof Error ? error.message : String(error)\<close>\<close>

fun message_or_String :: "thrown \<Rightarrow> string" where
  "message_or_String (HttpError m c b) = m"
| "message_or_String (Error m) = m"
| "message_or_String (NonError s) = s"

text \<open>\<^verbatim>\<open>error instanceof HttpError ? error.statusCode : undefined\<close>\<close>

fun statusCode_of :: "thrown \<Rightarrow> int option" where
  "statusCode_of (HttpError m c b) = Some c"
| "statusCode_of (Error m) = None"
| "statusCode_of (NonError s) = None"

text \<open>Truthiness of an optional string and of an optional number.\<close>

fun truthy :: "string option \<Rightarrow> bool" where
  "truthy None = False"
| "truthy (Some s) = (s \<noteq> [])"

fun truthy_num :: "int option \<Rightarrow> bool" where
  "truthy_num None = False"
| "truthy_num (Some n) = (n \<noteq> 0)"

text \<open>\<^verbatim>\<open>String.prototype.includes\<close>: the argument occurs as a contiguous run.\<close>

fun str_includes :: "string \<Rightarrow> string \<Rightarrow> bool" where
  "str_includes [] sub = (sub = [])"
| "str_includes (c # cs) sub = (prefix sub (c # cs) \<or> str_includes cs sub)"

text \<open>\<^verbatim>\<open>Array.prototype.join\<close> on an array of strings.\<close>

fun join :: "string list \<Rightarrow> string \<Rightarrow> string" where
  "join [] sep = []"
| "join [x] sep = x"
| "join (x # y # ys) sep = x @ sep @ join (y # ys) sep"

text \<open>
  \<^verbatim>\<open>String.prototype.trim\<close>: white space and line terminators are removed from both
  ends (tab, LF, VT, FF, CR, space, no-break space among the code units below 256).
\<close>

definition is_white_space :: "char \<Rightarrow> bool" where
  "is_white_space c =
     (c = CHR 0x09 \<or> c = CHR 0x0A \<or> c = CHR 0x0B \<or> c = CHR 0x0C \<or> c = CHR 0x0D
      \<or> c = CHR 0x20 \<or> c = CHR 0xA0)"

definition trim :: "string \<Rightarrow> string" where
  "trim s = rev (dropWhile is_white_space (rev (dropWhile is_white_space s)))"

text \<open>Decimal rendering of a number inside a template literal or by \<^verbatim>\<open>toString()\<close>.\<close>

definition digit_char :: "nat \<Rightarrow> char" where
  "digit_char d = ''0123456789'' ! d"

fun show_nat :: "nat \<Rightarrow> string" where
  "show_nat n = (if n < 10 then [digit_char n] else show_nat (n div 10) @ [digit_char (n mod 10)])"

definition show_int :: "int \<Rightarrow> string" where
  "show_int i = (if i < 0 then CHR ''-'' # show_nat (nat (- i)) else show_nat (nat i))"

section \<open>The debug hook (src/utils/debug.ts)\<close>

text \<open>
  A logger is a caller-supplied function \<^verbatim>\<open>(message, data?) => void\<close>. The model keeps
  whether a call returns or throws; what it prints is not part of the model.
\<close>

type_synonym logger_fn = "string \<Rightarrow> jsval \<Rightarrow> thrown + unit"

record debug_options =
  enabled :: "bool option"
  logRequests :: "bool option"
  logResponses :: "bool option"
  logger :: "logger_fn option"

text \<open>The default logger calls \<^verbatim>\<open>console.log\<close>, which returns.\<close>

definition console_logger :: logger_fn where
  "console_logger message data = Inr ()"

definition defaultDebugOptions :: debug_options where
  "defaultDebugOptions =
     \<lparr>enabled = Some False, logRequests = Some False, logResponses = Some False,
      logger = Some console_logger\<rparr>"

text \<open>
  \<^verbatim>\<open>{ ...defaultDebugOptions, ...options }\<close>: a key of \<open>options\<close> replaces the default.
  \<open>None\<close> stands for a key that is missing; a key that is present with the value
  \<^verbatim>\<open>undefined\<close> behaves the same in all three functions below, since the flags are
  only tested for truthiness and the logger falls back to the default one.
\<close>

definition or_default :: "'a option \<Rightarrow> 'a option \<Rightarrow> 'a option" where
  "or_default dflt v = (case v of None \<Rightarrow> dflt | Some x \<Rightarrow> Some x)"

definition spread_debug :: "debug_options \<Rightarrow> debug_options option \<Rightarrow> debug_options" where
  "spread_debug dflt options =
     (case options of
        None \<Rightarrow> dflt
      | Some opt \<Rightarrow>
          \<lparr>enabled = or_default (enabled dflt) (enabled opt),
           logRequests = or_default (logRequests dflt) (logRequests opt),
           logResponses = or_default (logResponses dflt) (logResponses opt),
           logger = or_default (logger dflt) (logger opt)\<rparr>)"

text \<open>\<^verbatim>\<open>try { logger(message, data); } catch { }\<close>\<close>

definition call_swallowing :: "logger_fn \<Rightarrow> string \<Rightarrow> jsval \<Rightarrow> thrown + unit" where
  "call_swallowing lg message data =
     (case lg message data of Inl e \<Rightarrow> Inr () | Inr u \<Rightarrow> Inr ())"

definition debug_log :: "debug_options option \<Rightarrow> string \<Rightarrow> jsval \<Rightarrow> thrown + unit" where
  "debug_log options message data =
     (let opts = spread_debug defaultDebugOptions options in
      if enabled opts = Some True then
        (case or_default (logger defaultDebugOptions) (logger opts) of
           Some lg \<Rightarrow> call_swallowing lg message data
         | None \<Rightarrow> Inr ())
      else Inr ())"

definition debug_logRequest :: "debug_options option \<Rightarrow> string \<Rightarrow> jsval \<Rightarrow> thrown + unit" where
  "debug_logRequest options message data =
     (let opts = spread_debug defaultDebugOptions options in
      if enabled opts = Some True \<and> logRequests opts = Some True then
        (case or_default (logger defaultDebugOptions) (logger opts) of
           Some lg \<Rightarrow> call_swallowing lg (''REQUEST: '' @ message) data
         | None \<Rightarrow> Inr ())
      else Inr ())"

definition debug_logResponse :: "debug_options option \<Rightarrow> string \<Rightarrow> jsval \<Rightarrow> thrown + unit" where
  "debug_logResponse options message data =
     (let opts = spread_debug defaultDebugOptions options in
      if enabled opts = Some True \<and> logResponses opts = Some True then
        (case or_default (logger defaultDebugOptions) (logger opts) of
           Some lg \<Rightarrow> call_swallowing lg (''RESPONSE: '' @ message) data
         | None \<Rightarrow> Inr ())
      else Inr ())"

text \<open>A logger that always throws, as in the test "swallows errors thrown by a custom logger".\<close>

definition throwingLogger :: logger_fn where
  "throwingLogger message data = Inl (Error ''logger failure'')"

section \<open>Native provider records and the canonical result\<close>

text \<open>
  The provider interfaces are modelled with their declared field types, except that the
  \<open>url\<close>/\<open>id\<close> and \<open>title\<close> of a native record are optional: the response body is cast
  to the interface without any check, so such a key can be missing at run time.
  Field names of the native records carry a prefix, since record fields share one name space.
\<close>

record perplexity_search_result =
  px_title :: "string option"
  px_url :: "string option"
  px_snippet :: string
  px_date :: string
  px_last_updated :: string

record perplexity_search_response =
  px_results :: "perplexity_search_result list option"

record parallel_web_search_result =
  pl_url :: "string option"
  pl_title :: "string option"
  pl_publish_date :: "string option"
  pl_excerpts :: "string list option"

record parallel_search_response =
  pl_search_id :: string
  pl_results :: "parallel_web_search_result list option"
  pl_warnings :: "jsval list option"
  pl_usage :: "jsval list option"

record arxiv_atom_link =
  al_href :: string
  al_rel :: string
  al_type :: "string option"
  al_title :: "string option"

record arxiv_atom_author =
  au_name :: string

record arxiv_atom_category =
  cat_term :: string
  cat_scheme :: "string option"

record arxiv_atom_entry =
  ae_id :: "string option"
  ae_updated :: string
  ae_published :: string
  ae_title :: "string option"
  ae_summary :: string
  ae_author :: "arxiv_atom_author list option"
  ae_link :: "arxiv_atom_link list option"
  ae_category :: "arxiv_atom_category list option"
  ae_primary_category :: "arxiv_atom_category option"
  ae_comment :: "string option"
  ae_journal_ref :: "string option"
  ae_doi :: "string option"

record arxiv_atom_feed =
  feed_entry :: "arxiv_atom_entry list option"
  feed_totalResults :: string
  feed_startIndex :: string
  feed_itemsPerPage :: string

record arxiv_parsed_xml =
  feed :: "arxiv_atom_feed option"

text \<open>The \<open>raw\<close> field of a result: the native record it was made from.\<close>

datatype native =
    PerplexityRaw perplexity_search_result
  | ParallelRaw parallel_web_search_result
  | ArxivRaw arxiv_atom_entry
  | OtherRaw jsval

text \<open>\<open>SearchResult\<close>, with the two extra fields the Arxiv adapter adds.\<close>

record search_result =
  url :: "string option"
  title :: "string option"
  snippet :: "string option"
  content :: "string option"
  domain :: "string option"
  publishedDate :: "string option"
  provider :: "string option"
  raw :: "native option"
  authors :: "string list option"
  categories :: "string list option"

section \<open>Search options and adapter handles\<close>

record perplexity_config =
  px_apiKey :: "string option"
  px_baseUrl :: "string option"
  px_maxTokens :: "int option"
  px_maxTokensPerPage :: "int option"
  px_country :: "string option"
  px_searchDomainFilter :: "string list option"
  px_searchRecencyFilter :: "string option"
  px_searchAfterDate :: "string option"
  px_searchBeforeDate :: "string option"
  px_searchLanguageFilter :: "string list option"

record parallel_config =
  pl_apiKey :: "string option"
  pl_baseUrl :: "string option"
  pl_mode :: "string option"
  pl_maxResults :: "int option"
  pl_includeDomains :: "string list option"
  pl_excludeDomains :: "string list option"
  pl_afterDate :: "string option"
  pl_beforeDate :: "string option"
  pl_maxCharsPerResult :: "int option"
  pl_excerptCount :: "int option"
  pl_fetchStrategy :: "string option"
  pl_metadata :: "jsval option"

record arxiv_config =
  ax_apiKey :: "string option"
  ax_baseUrl :: "string option"
  ax_sortBy :: "string option"
  ax_sortOrder :: "string option"

text \<open>The \<open>config\<close> object a handle carries.\<close>

datatype provider_config =
    PerplexityConfig perplexity_config
  | ParallelConfig parallel_config
  | ArxivConfig arxiv_config
  | OtherConfig jsval

record search_options =
  query :: "string option"
  idList :: "string option"
  maxResults :: "int option"
  language :: "string option"
  region :: "string option"
  safeSearch :: "string option"
  page :: "int option"
  start :: "int option"
  sortBy :: "string option"
  sortOrder :: "string option"
  searchType :: "string option"
  timeout :: "int option"
  debug :: "debug_options option"

text \<open>
  An adapter's \<open>search\<close> is asynchronous and may do network I/O. It is a state
  transformer over a world \<open>'w\<close> (whatever the I/O acts on) that resolves with a result
  list (\<open>Inr\<close>) or rejects with a thrown value (\<open>Inl\<close>).
\<close>

type_synonym 'w search_fn = "search_options \<Rightarrow> 'w \<Rightarrow> (thrown + search_result list) \<times> 'w"

record 'w search_provider =
  name :: string
  config :: provider_config
  search :: "'w search_fn"

text \<open>
  \<open>WebSearchOptions\<close> extends \<open>SearchOptions\<close> with the adapter list, the source's
  field \<open>provider\<close> (here \<open>provider_arg\<close>; \<open>provider\<close> is the field of a result).
\<close>

record 'w web_search_options = search_options +
  provider_arg :: "'w search_provider list"

section \<open>The aggregation engine (src/index.ts)\<close>

definition apostrophe :: string where
  "apostrophe = [CHR 0x27]"

definition opt_str :: "string option \<Rightarrow> jsval" where
  "opt_str v = (case v of None \<Rightarrow> JUndefined | Some s \<Rightarrow> JStr s)"

definition opt_num :: "int option \<Rightarrow> jsval" where
  "opt_num v = (case v of None \<Rightarrow> JUndefined | Some n \<Rightarrow> JNum n)"

text \<open>
  \<open>getTroubleshootingInfo(providerName, error, statusCode)\<close>. Of the \<open>Error\<close> argument only
  \<open>error.message\<close> is read, so the model takes the message.
\<close>

definition status_suggestions :: "int option \<Rightarrow> string" where
  "status_suggestions statusCode =
     (case statusCode of
        None \<Rightarrow> []
      | Some c \<Rightarrow>
          if c = 0 then []
          else if c = 401 \<or> c = 403 then
            ''This is likely an authentication issue. Check your API key and make sure it's valid and has the correct permissions.''
          else if c = 400 then
            ''This is likely due to invalid request parameters. Check your query and other search options.''
          else if c = 429 then
            ''You've exceeded the rate limit for this API. Try again later or reduce your request frequency.''
          else if c \<ge> 500 then
            ''The search provider is experiencing server issues. Try again later.''
          else [])"

definition object_Object_hint :: "string \<Rightarrow> string \<Rightarrow> string" where
  "object_Object_hint error_message suggestions =
     (if str_includes error_message ''[object Object]'' then
        suggestions @ ''\<newline>\<newline>The error response contains complex data that wasn't properly formatted. ''
          @ ''Try enabling debug mode to see the full response details: { debug: { enabled: true, logResponses: true } }''
      else suggestions)"

definition provider_suggestions :: "string \<Rightarrow> string \<Rightarrow> int option \<Rightarrow> string \<Rightarrow> string" where
  "provider_suggestions providerName error_message statusCode suggestions =
     (if providerName = ''google'' then
        (if str_includes error_message ''API key'' then
           ''Make sure your Google API key is valid and has the Custom Search API enabled. Also check if your Search Engine ID (cx) is correct.''
         else if str_includes error_message ''quota'' then
           ''You've exceeded your Google Custom Search API quota. Check your Google Cloud Console for quota information.''
         else suggestions)
      else if providerName = ''serpapi'' then
        (if str_includes error_message ''apiKey'' then
           ''Check that your SerpAPI key is valid. Verify that you have enough credits remaining in your SerpAPI account.''
         else suggestions)
      else if providerName = ''brave'' then
        (if str_includes error_message ''token'' then
           ''Ensure your Brave Search API token is valid. Check your subscription status in the Brave Developer Hub.''
         else suggestions)
      else if providerName = ''searxng'' then
        (if str_includes error_message ''not found'' \<or> statusCode = Some 404 then
           ''Check if your SearXNG instance URL is correct and that the server is running. Verify the format of your search URL.''
         else suggestions)
      else if providerName = ''duckduckgo'' then
        (if str_includes error_message ''vqd'' then
           ''Failed to extract the vqd parameter from DuckDuckGo. This may be due to temporary API changes or rate limiting. Try again later or consider using a different search type.''
         else if statusCode = Some 429 \<or> str_includes error_message ''rate'' then
           ''You may be making too many requests to DuckDuckGo. Try adding a delay between requests or reduce your request frequency.''
         else suggestions)
      else if providerName = ''perplexity'' then
        (if str_includes error_message ''api_key'' \<or> str_includes error_message ''apiKey'' then
           ''Check your Perplexity API key. Make sure it's valid and has the correct permissions for the Search API.''
         else if statusCode = Some 429 then
           ''You have exceeded your Perplexity API quota or rate limits. Check your usage in your Perplexity account dashboard.''
         else if statusCode = Some 400 then
           ''Check your search parameters for the Perplexity API. Ensure max_results is between 1-20, and date formats are correct (MM/DD/YYYY).''
         else suggestions)
      else
        (if suggestions = [] then
           ''Check your '' @ providerName @ '' API credentials and make sure your search request is valid.''
         else suggestions))"

definition getTroubleshootingInfo :: "string \<Rightarrow> string \<Rightarrow> int option \<Rightarrow> string" where
  "getTroubleshootingInfo providerName error_message statusCode =
     provider_suggestions providerName error_message statusCode
       (object_Object_hint error_message (status_suggestions statusCode))"

text \<open>
  The object each per-adapter promise resolves with, \<^verbatim>\<open>{ provider, results, error }\<close>.
  \<open>error\<close> is \<^verbatim>\<open>null\<close> (\<open>None\<close>) or an \<open>Error\<close>, kept as its message.
\<close>

record aggregated_outcome =
  outcome_provider :: string
  outcome_results :: "search_result list"
  outcome_error :: "string option"

text \<open>
  The message of \<open>detailedError\<close>, built in the \<^verbatim>\<open>catch\<close> block of the per-adapter
  promise from the adapter's name and the value it threw (lines 123 to 145 of index.ts).
\<close>

definition detailedErrorMessage_of :: "string \<Rightarrow> thrown \<Rightarrow> string" where
  "detailedErrorMessage_of providerName error =
     (let statusCode = statusCode_of error;
          errorMessage = message_or_String error;
          troubleshooting =
            getTroubleshootingInfo providerName (message_or_String error) statusCode;
          detailedErrorMessage =
            ''Search with provider '' @ apostrophe @ providerName @ apostrophe @ '' failed: ''
              @ errorMessage
      in if troubleshooting \<noteq> [] \<and> trim troubleshooting \<noteq> [] then
           detailedErrorMessage @ ''\<newline>\<newline>Troubleshooting: '' @ troubleshooting
         else detailedErrorMessage)"

text \<open>
  The body of \<^verbatim>\<open>provider.map(async (p) => { try { ... } catch (error) { ... } })\<close>.
  \<open>attempt\<close> is the \<^verbatim>\<open>try\<close> block; a value thrown in it reaches the \<^verbatim>\<open>catch\<close>
  block, and a value thrown inside the \<^verbatim>\<open>catch\<close> block rejects the promise.
\<close>

definition searchPromise ::
  "('w, 'z) web_search_options_scheme \<Rightarrow> 'w search_provider \<Rightarrow> 'w \<Rightarrow> (thrown + aggregated_outcome) \<times> 'w" where
  "searchPromise options p w =
     (let debugOptions = debug options;
          (settled, w') = search p ((search_options.truncate options)\<lparr>debug := debugOptions\<rparr>) w;
          attempt =
            (case settled of
               Inl e \<Rightarrow> Inl e
             | Inr results \<Rightarrow>
                 (case debug_logResponse debugOptions
                         (''Received '' @ show_nat (length results) @ '' results from '' @ name p)
                         JUndefined of
                    Inl e \<Rightarrow> Inl e
                  | Inr u \<Rightarrow>
                      Inr \<lparr>outcome_provider = name p, outcome_results = results,
                           outcome_error = None\<rparr>))
      in case attempt of
           Inr outcome \<Rightarrow> (Inr outcome, w')
         | Inl error \<Rightarrow>
             (let statusCode = statusCode_of error;
                  errorMessage = message_or_String error;
                  troubleshooting =
                    getTroubleshootingInfo (name p) (message_or_String error) statusCode;
                  detailedErrorMessage = detailedErrorMessage_of (name p) error
              in case debug_log debugOptions (''Search error with provider '' @ name p)
                        (JObj [(''error'', JStr errorMessage),
                               (''statusCode'', opt_num statusCode),
                               (''troubleshooting'', JStr troubleshooting),
                               (''provider'', JStr (name p)),
                               (''query'', opt_str (query options)),
                               (''rawError'',
                                  (case error of HttpError m c b \<Rightarrow> b | Error m \<Rightarrow> JUndefined
                                   | NonError v \<Rightarrow> JUndefined))]) of
                   Inl e \<Rightarrow> (Inl e, w')
                 | Inr u \<Rightarrow>
                     (Inr \<lparr>outcome_provider = name p, outcome_results = [],
                           outcome_error = Some detailedErrorMessage\<rparr>, w')))"

text \<open>
  \<^verbatim>\<open>provider.map(...)\<close> starts one search per adapter, in the order of the list. In the
  model each adapter's search runs to completion on the world the previous one left
  (the adapters share no state, and \<^verbatim>\<open>Promise.all\<close> keeps the order of the list
  whatever the order of completion).
\<close>

fun searchPromises ::
  "('w, 'z) web_search_options_scheme \<Rightarrow> 'w search_provider list \<Rightarrow> 'w
     \<Rightarrow> (thrown + aggregated_outcome) list \<times> 'w" where
  "searchPromises options [] w = ([], w)"
| "searchPromises options (p # ps) w =
     (let (r, w1) = searchPromise options p w;
          (rs, w2) = searchPromises options ps w1
      in (r # rs, w2))"

text \<open>\<^verbatim>\<open>Promise.all\<close>: the values in order, or a rejection if one of the promises rejects.\<close>

fun Promise_all :: "(thrown + 'a) list \<Rightarrow> thrown + 'a list" where
  "Promise_all [] = Inr []"
| "Promise_all (x # xs) =
     (case x of
        Inl e \<Rightarrow> Inl e
      | Inr v \<Rightarrow> (case Promise_all xs of Inl e \<Rightarrow> Inl e | Inr vs \<Rightarrow> Inr (v # vs)))"

text \<open>The loop \<^verbatim>\<open>for (const { provider, results, error } of searchResults)\<close>.\<close>

fun collect ::
  "debug_options option \<Rightarrow> aggregated_outcome list \<Rightarrow> search_result list \<times> string list
     \<Rightarrow> thrown + search_result list \<times> string list" where
  "collect debugOptions [] acc = Inr acc"
| "collect debugOptions (r # rs) (allResults, errors) =
     (case outcome_error r of
        Some error_message \<Rightarrow>
          (case debug_log debugOptions (''Provider '' @ outcome_provider r @ '' failed'')
                  (JObj [(''error'', JStr error_message)]) of
             Inl e \<Rightarrow> Inl e
           | Inr u \<Rightarrow> collect debugOptions rs (allResults, errors @ [error_message]))
      | None \<Rightarrow> collect debugOptions rs (allResults @ outcome_results r, errors))"

definition webSearch ::
  "('w, 'z) web_search_options_scheme \<Rightarrow> 'w \<Rightarrow> (thrown + search_result list) \<times> 'w" where
  "webSearch options w =
     (let provider = provider_arg options; debugOptions = debug options in
      if provider = [] then (Inl (Error ''At least one search provider is required''), w)
      else
        let hasArxivProvider = list_ex (\<lambda>p. name p = ''arxiv'') provider in
        if \<not> truthy (query options) \<and> \<not> (hasArxivProvider \<and> truthy (idList options)) then
          (Inl (Error ''A search query or ID list (for Arxiv) is required''), w)
        else
          case debug_log debugOptions
                 (''Performing search with '' @ show_nat (length provider) @ '' provider(s): ''
                    @ join (map name provider) '', '')
                 (JObj [(''query'', opt_str (query options)),
                        (''maxResults'', opt_num (maxResults options)),
                        (''providers'', JArr (map (\<lambda>p. JStr (name p)) provider))]) of
            Inl e \<Rightarrow> (Inl e, w)
          | Inr u \<Rightarrow>
              (let (promises, w') = searchPromises options provider w in
               case Promise_all promises of
                 Inl e \<Rightarrow> (Inl e, w')
               | Inr searchResults \<Rightarrow>
                   (case collect debugOptions searchResults ([], []) of
                      Inl e \<Rightarrow> (Inl e, w')
                    | Inr (allResults, errors) \<Rightarrow>
                        (let successful = length (filter (\<lambda>r. outcome_error r = None) searchResults) in
                         case debug_log debugOptions
                                (''Search complete: '' @ show_nat (length allResults)
                                   @ '' total results from '' @ show_nat successful @ ''/''
                                   @ show_nat (length provider) @ '' providers'')
                                (JObj [(''totalResults'', JNum (int (length allResults))),
                                       (''successfulProviders'', JNum (int successful)),
                                       (''failedProviders'', JNum (int (length errors)))]) of
                           Inl e \<Rightarrow> (Inl e, w')
                         | Inr u \<Rightarrow>
                             if length allResults = 0 \<and> length errors > 0 then
                               (Inl (Error (''All '' @ show_nat (length provider)
                                      @ '' provider(s) failed:\<newline>\<newline>''
                                      @ join errors ''\<newline>\<newline>'')), w')
                             else (Inr allResults, w')))))"

text \<open>
  Adapters written by hand, as \<open>makeProvider\<close> in the tests of \<open>webSearch\<close>. The mock
  function records its calls; the world of such an adapter is the list of calls made so far
  (the adapter's name and the options it was called with).
\<close>

type_synonym calls = "(string \<times> search_options) list"

definition makeProvider ::
  "string \<Rightarrow> search_result list \<Rightarrow> bool \<Rightarrow> thrown option \<Rightarrow> calls search_provider" where
  "makeProvider nm results shouldFail errorToThrow =
     \<lparr>name = nm,
      config = OtherConfig (JObj [(''apiKey'', JStr ''test-key'')]),
      search =
        (if shouldFail then
           (\<lambda>options w.
              (Inl (case errorToThrow of Some e \<Rightarrow> e | None \<Rightarrow> Error (nm @ '' failed'')),
               w @ [(nm, options)]))
         else (\<lambda>options w. (Inr results, w @ [(nm, options)])))\<rparr>"

definition mk_result :: "string \<Rightarrow> string \<Rightarrow> string \<Rightarrow> search_result" where
  "mk_result u t p =
     \<lparr>url = Some u, title = Some t, snippet = None, content = None, domain = None,
      publishedDate = None, provider = Some p, raw = None, authors = None, categories = None\<rparr>"

definition mk_options :: "string option \<Rightarrow> 'w search_provider list \<Rightarrow> 'w web_search_options" where
  "mk_options q ps =
     \<lparr>query = q, idList = None, maxResults = None, language = None, region = None,
      safeSearch = None, page = None, start = None, sortBy = None, sortOrder = None,
      searchType = None, timeout = None, debug = None, provider_arg = ps\<rparr>"

section \<open>What the adapters take from outside the repository's sources\<close>

text \<open>
  The transport helper (\<open>post\<close>, \<open>get\<close> of utils/http) and the platform's \<open>URL\<close>
  class are parameters of the adapters. A transport call acts on the world and settles with
  the parsed body or with a thrown value. \<open>new URL(s).hostname\<close> is a function that gives
  the host name, or \<open>None\<close> where the constructor throws.
\<close>

record request_init =
  headers :: "(string \<times> string) list"
  init_timeout :: "int option"

type_synonym ('w, 'r) post_fn = "string \<Rightarrow> jsval \<Rightarrow> request_init \<Rightarrow> 'w \<Rightarrow> (thrown + 'r) \<times> 'w"

type_synonym hostname_fn = "string \<Rightarrow> string option"

text \<open>
  The \<^verbatim>\<open>try { domain = new URL(result.url).hostname; } catch { domain = undefined; }\<close>
  of the adapters. A missing \<open>url\<close> is converted to the string \<open>undefined\<close> by the
  constructor.
\<close>

definition url_text :: "string option \<Rightarrow> string" where
  "url_text u = (case u of None \<Rightarrow> ''undefined'' | Some s \<Rightarrow> s)"

definition domain_of :: "hostname_fn \<Rightarrow> string option \<Rightarrow> string option" where
  "domain_of new_URL_hostname u =
     (case new_URL_hostname (url_text u) of
        None \<Rightarrow> None
      | Some h \<Rightarrow> Some h)"

definition opt_field :: "string \<Rightarrow> 'a option \<Rightarrow> ('a \<Rightarrow> jsval) \<Rightarrow> (string \<times> jsval) list" where
  "opt_field key v f = (case v of None \<Rightarrow> [] | Some x \<Rightarrow> [(key, f x)])"

definition truthy_field :: "string \<Rightarrow> string option \<Rightarrow> (string \<times> jsval) list" where
  "truthy_field key v = (if truthy v then opt_field key v JStr else [])"

definition str_array :: "string list \<Rightarrow> jsval" where
  "str_array xs = JArr (map JStr xs)"

section \<open>The Perplexity adapter (src/providers/perplexity.ts)\<close>

definition perplexity_DEFAULT_BASE_URL :: string where
  "perplexity_DEFAULT_BASE_URL = ''https://api.perplexity.ai/search''"

text \<open>The request body, its keys in the order the source assigns them.\<close>

definition perplexity_requestBody :: "perplexity_config \<Rightarrow> search_options \<Rightarrow> string \<Rightarrow> (string \<times> jsval) list" where
  "perplexity_requestBody cfg options q =
     (let maxResults = (case maxResults options of None \<Rightarrow> 10 | Some n \<Rightarrow> n) in
      [(''query'', JStr q)]
      @ [(''max_results'', JNum (max 1 (min 20 maxResults)))]
      @ opt_field ''max_tokens'' (px_maxTokens cfg) JNum
      @ opt_field ''search_domain_filter'' (px_searchDomainFilter cfg) str_array
      @ opt_field ''max_tokens_per_page'' (px_maxTokensPerPage cfg) JNum
      @ (if truthy (region options) then opt_field ''country'' (region options) JStr
         else truthy_field ''country'' (px_country cfg))
      @ truthy_field ''search_recency_filter'' (px_searchRecencyFilter cfg)
      @ truthy_field ''search_after_date'' (px_searchAfterDate cfg)
      @ truthy_field ''search_before_date'' (px_searchBeforeDate cfg)
      @ (case px_searchLanguageFilter cfg of
           Some langs \<Rightarrow> [(''search_language_filter'', str_array langs)]
         | None \<Rightarrow>
             (if truthy (language options)
              then opt_field ''search_language_filter'' (language options) (\<lambda>l. str_array [l])
              else [])))"

text \<open>The callback of \<^verbatim>\<open>response.results.map(...)\<close>.\<close>

definition perplexity_to_result :: "hostname_fn \<Rightarrow> perplexity_search_result \<Rightarrow> search_result" where
  "perplexity_to_result new_URL_hostname result =
     \<lparr>url = px_url result,
      title = px_title result,
      snippet = Some (px_snippet result),
      content = None,
      domain = domain_of new_URL_hostname (px_url result),
      publishedDate =
        Some (if px_last_updated result \<noteq> [] then px_last_updated result else px_date result),
      provider = Some ''perplexity'',
      raw = Some (PerplexityRaw result),
      authors = None,
      categories = None\<rparr>"

text \<open>The \<^verbatim>\<open>catch\<close> block: the message of the error that is thrown again.\<close>

definition perplexity_errorMessage :: "thrown \<Rightarrow> string \<times> string" where
  "perplexity_errorMessage error =
     (let errorMessage = ''Perplexity search failed'';
          (errorMessage, diagnosticInfo) =
            (case error of
               HttpError m c b \<Rightarrow>
                 (errorMessage @ '': '' @ m,
                  if c = 401 then ''Invalid API key. Check your Perplexity API key.''
                  else if c = 403 then
                    ''Access denied. Your Perplexity API key may have insufficient permissions or has expired.''
                  else if c = 429 then
                    ''Rate limit exceeded. You have reached your Perplexity API quota or sent too many requests.''
                  else if c = 400 then
                    ''Bad request. Check your search parameters.''
                    @ (if str_includes m ''max_results'' then
                         '' Invalid max_results value. Must be between 1 and 20.''
                       else if str_includes m ''search_recency_filter'' then
                         '' Invalid search_recency_filter. Use \"day\", \"week\", \"month\", or \"year\".''
                       else if str_includes m ''search_after_date'' \<or> str_includes m ''search_before_date'' then
                         '' Invalid date format. Use MM/DD/YYYY format.''
                       else [])
                  else if c \<ge> 500 then
                    ''Perplexity server error. The service might be experiencing issues. Try again later.''
                  else [])
             | Error m \<Rightarrow>
                 (errorMessage @ '': '' @ m,
                  if str_includes m ''api_key'' \<or> str_includes m ''apiKey'' then
                    ''Authentication issue. Check your Perplexity API key.''
                  else if str_includes m ''timeout'' then
                    ''The request timed out. Try increasing the timeout value or simplifying your query.''
                  else [])
             | NonError v \<Rightarrow> (errorMessage @ '': '' @ v, []))
      in (if diagnosticInfo \<noteq> [] then
            errorMessage @ ''\<newline>\<newline>Diagnostic information: '' @ diagnosticInfo
              @ ''\<newline>\<newline>Perplexity API docs: https://docs.perplexity.ai/api-reference''
          else errorMessage,
          diagnosticInfo))"

text \<open>The base URL the handle is built with, and the options of its \<open>post\<close> call.\<close>

definition perplexity_baseUrl :: "perplexity_config \<Rightarrow> string" where
  "perplexity_baseUrl cfg =
     (case px_baseUrl cfg of
        None \<Rightarrow> perplexity_DEFAULT_BASE_URL
      | Some b \<Rightarrow> if b = [] then perplexity_DEFAULT_BASE_URL else b)"

definition perplexity_request_init :: "perplexity_config \<Rightarrow> search_options \<Rightarrow> request_init" where
  "perplexity_request_init cfg options =
     \<lparr>headers =
        [(''Authorization'',
          ''Bearer '' @ (case px_apiKey cfg of Some k \<Rightarrow> k | None \<Rightarrow> ''undefined'')),
         (''Content-Type'', ''application/json'')],
      init_timeout = timeout options\<rparr>"

text \<open>The \<^verbatim>\<open>try\<close> block of \<open>search\<close>.\<close>

definition perplexity_try ::
  "('w, perplexity_search_response) post_fn \<Rightarrow> hostname_fn \<Rightarrow> perplexity_config \<Rightarrow> string
     \<Rightarrow> search_options \<Rightarrow> string \<Rightarrow> 'w \<Rightarrow> (thrown + search_result list) \<times> 'w" where
  "perplexity_try post new_URL_hostname cfg baseUrl options q w =
     (let debugOptions = debug options;
          (settled, w') =
            post baseUrl (JObj (perplexity_requestBody cfg options q))
              (perplexity_request_init cfg options) w
      in case settled of
           Inl e \<Rightarrow> (Inl e, w')
         | Inr response \<Rightarrow>
             (case debug_logResponse debugOptions ''Perplexity Search raw response''
                     (JObj [(''status'', JStr ''success''),
                            (''itemCount'',
                               JNum (case px_results response of None \<Rightarrow> 0
                                     | Some rs \<Rightarrow> int (length rs))),
                            (''query'', JStr q)]) of
                Inl e \<Rightarrow> (Inl e, w')
              | Inr u \<Rightarrow>
                  if px_results response = None \<or> px_results response = Some [] then
                    (case debug_log debugOptions ''Perplexity Search returned no results''
                            JUndefined of
                       Inl e \<Rightarrow> (Inl e, w')
                     | Inr u \<Rightarrow> (Inr [], w'))
                  else
                    (Inr (map (perplexity_to_result new_URL_hostname)
                            (case px_results response of None \<Rightarrow> [] | Some rs \<Rightarrow> rs)), w')))"

text \<open>The \<open>search\<close> function of the handle \<open>createPerplexityProvider\<close> returns.\<close>

definition perplexity_search ::
  "('w, perplexity_search_response) post_fn \<Rightarrow> hostname_fn \<Rightarrow> perplexity_config \<Rightarrow> string
     \<Rightarrow> 'w search_fn" where
  "perplexity_search post new_URL_hostname cfg baseUrl options w =
     (let debugOptions = debug options in
      case query options of
        None \<Rightarrow> (Inl (Error ''Perplexity search requires a query.''), w)
      | Some q \<Rightarrow>
          if q = [] then (Inl (Error ''Perplexity search requires a query.''), w)
          else
            case debug_logRequest debugOptions ''Perplexity Search request''
                   (JObj [(''url'', JStr baseUrl),
                          (''body'', JObj (perplexity_requestBody cfg options q
                                            @ [(''apiKey'', JStr ''***'')]))]) of
              Inl e \<Rightarrow> (Inl e, w)
            | Inr u \<Rightarrow>
                (let (attempt, w') = perplexity_try post new_URL_hostname cfg baseUrl options q w in
                 case attempt of
                   Inr results \<Rightarrow> (Inr results, w')
                 | Inl error \<Rightarrow>
                     (let (errorMessage, diagnosticInfo) = perplexity_errorMessage error in
                      case debug_log debugOptions ''Perplexity Search error''
                             (JObj [(''error'', JStr (message_or_String error)),
                                    (''statusCode'', opt_num (statusCode_of error)),
                                    (''diagnosticInfo'', JStr diagnosticInfo)]) of
                        Inl e \<Rightarrow> (Inl e, w')
                      | Inr u \<Rightarrow> (Inl (Error errorMessage), w'))))"

definition createPerplexityProvider ::
  "('w, perplexity_search_response) post_fn \<Rightarrow> hostname_fn \<Rightarrow> perplexity_config
     \<Rightarrow> thrown + 'w search_provider" where
  "createPerplexityProvider post new_URL_hostname cfg =
     (if \<not> truthy (px_apiKey cfg) then Inl (Error ''Perplexity requires an API key'')
      else
        let baseUrl = perplexity_baseUrl cfg
        in Inr \<lparr>name = ''perplexity'',
                config = PerplexityConfig cfg,
                search = perplexity_search post new_URL_hostname cfg baseUrl\<rparr>)"

text \<open>
  The module-level object \<open>perplexity\<close>. Its \<open>configure\<close> is \<open>createPerplexityProvider\<close>;
  its \<open>search\<close> throws.
\<close>

definition perplexity :: "'w search_provider" where
  "perplexity =
     \<lparr>name = ''perplexity'',
      config = PerplexityConfig
        \<lparr>px_apiKey = Some [], px_baseUrl = None, px_maxTokens = None, px_maxTokensPerPage = None,
         px_country = None, px_searchDomainFilter = None, px_searchRecencyFilter = None,
         px_searchAfterDate = None, px_searchBeforeDate = None, px_searchLanguageFilter = None\<rparr>,
      search =
        (\<lambda>options w.
           (Inl (Error ''Perplexity provider must be configured before use. Call perplexity.configure() first.''),
            w))\<rparr>"

definition perplexity_configure ::
  "('w, perplexity_search_response) post_fn \<Rightarrow> hostname_fn \<Rightarrow> perplexity_config
     \<Rightarrow> thrown + 'w search_provider" where
  "perplexity_configure post new_URL_hostname cfg = createPerplexityProvider post new_URL_hostname cfg"

section \<open>The Parallel adapter (src/providers/parallel.ts)\<close>

definition parallel_DEFAULT_BASE_URL :: string where
  "parallel_DEFAULT_BASE_URL = ''https://api.parallel.ai/v1beta/search''"

definition PARALLEL_BETA_HEADER :: string where
  "PARALLEL_BETA_HEADER = ''search-extract-2025-10-10''"

text \<open>\<^verbatim>\<open>config.includeDomains?.length\<close> as a condition.\<close>

definition has_length :: "'a list option \<Rightarrow> bool" where
  "has_length v = (case v of None \<Rightarrow> False | Some xs \<Rightarrow> xs \<noteq> [])"

definition parallel_requestBody :: "parallel_config \<Rightarrow> search_options \<Rightarrow> string \<Rightarrow> (string \<times> jsval) list" where
  "parallel_requestBody cfg options q =
     (let maxResults = (case maxResults options of None \<Rightarrow> 10 | Some n \<Rightarrow> n);
          effectiveMaxResults =
            (if maxResults \<noteq> 0 then maxResults
             else if truthy_num (pl_maxResults cfg)
                  then (case pl_maxResults cfg of Some m \<Rightarrow> m | None \<Rightarrow> 10)
                  else 10)
      in
      [(''objective'', JStr q)]
      @ truthy_field ''mode'' (pl_mode cfg)
      @ [(''max_results'', JNum effectiveMaxResults)]
      @ (if pl_maxCharsPerResult cfg \<noteq> None \<or> pl_excerptCount cfg \<noteq> None then
           [(''excerpts'',
             JObj (opt_field ''max_chars_per_result'' (pl_maxCharsPerResult cfg) JNum
                   @ opt_field ''count'' (pl_excerptCount cfg) JNum))]
         else [])
      @ (if has_length (pl_includeDomains cfg) \<or> has_length (pl_excludeDomains cfg)
            \<or> truthy (pl_afterDate cfg) \<or> truthy (pl_beforeDate cfg) then
           [(''source_policy'',
             JObj ((if has_length (pl_includeDomains cfg)
                    then opt_field ''include_domains'' (pl_includeDomains cfg) str_array else [])
                   @ (if has_length (pl_excludeDomains cfg)
                      then opt_field ''exclude_domains'' (pl_excludeDomains cfg) str_array else [])
                   @ truthy_field ''after_date'' (pl_afterDate cfg)
                   @ truthy_field ''before_date'' (pl_beforeDate cfg)))]
         else [])
      @ (if truthy (pl_fetchStrategy cfg) then
           [(''fetch_policy'', JObj (opt_field ''strategy'' (pl_fetchStrategy cfg) JStr))]
         else []))"

text \<open>The callback of \<^verbatim>\<open>response.results.map(...)\<close>.\<close>

definition parallel_to_result :: "hostname_fn \<Rightarrow> parallel_web_search_result \<Rightarrow> search_result" where
  "parallel_to_result new_URL_hostname result =
     (let excerpts = (case pl_excerpts result of None \<Rightarrow> [] | Some xs \<Rightarrow> xs) in
      \<lparr>url = pl_url result,
       title = (if truthy (pl_title result) then pl_title result else Some ''No title available''),
       snippet = (case excerpts of [] \<Rightarrow> None | x # xs \<Rightarrow> Some x),
       content = (if excerpts \<noteq> [] then Some (join excerpts ''\<newline>\<newline>'') else None),
       domain = domain_of new_URL_hostname (pl_url result),
       publishedDate = pl_publish_date result,
       provider = Some ''parallel'',
       raw = Some (ParallelRaw result),
       authors = None,
       categories = None\<rparr>)"

definition parallel_errorMessage :: "thrown \<Rightarrow> string \<times> string" where
  "parallel_errorMessage error =
     (let errorMessage = ''Parallel search failed'';
          (errorMessage, diagnosticInfo) =
            (case error of
               HttpError m c b \<Rightarrow>
                 (errorMessage @ '': '' @ m,
                  if c = 401 then ''Invalid API key. Check your Parallel API key.''
                  else if c = 403 then
                    ''Access denied. Your Parallel API key may have insufficient permissions or has expired.''
                  else if c = 429 then
                    ''Rate limit exceeded. You have reached your Parallel API quota or sent too many requests.''
                  else if c = 400 then
                    ''Bad request. Check your search parameters.''
                    @ (if str_includes m ''objective'' \<or> str_includes m ''search_queries'' then
                         '' At least one of objective or search_queries must be provided.''
                       else if str_includes m ''max_results'' then
                         '' Invalid max_results value.''
                       else if str_includes m ''source_policy'' then
                         '' Invalid source_policy configuration. Check domain and date formats.''
                       else [])
                  else if c = 422 then
                    ''Validation error. The request parameters failed validation checks.''
                    @ (if str_includes m ''date'' then
                         '' Invalid date format. Use RFC 3339 date format (YYYY-MM-DD) for afterDate/beforeDate.''
                       else if str_includes m ''domain'' then
                         '' Invalid domain format in includeDomains or excludeDomains.''
                       else if str_includes m ''mode'' then
                         '' Invalid mode value. Use \"one-shot\" or \"agentic\".''
                       else if str_includes m ''strategy'' then
                         '' Invalid fetch strategy. Use \"cached\" or \"live\".''
                       else [])
                  else if c \<ge> 500 then
                    ''Parallel server error. The service might be experiencing issues. Try again later.''
                  else [])
             | Error m \<Rightarrow>
                 (errorMessage @ '': '' @ m,
                  if str_includes m ''api_key'' \<or> str_includes m ''apiKey'' then
                    ''Authentication issue. Check your Parallel API key.''
                  else if str_includes m ''timeout'' then
                    ''The request timed out. Try increasing the timeout value or simplifying your query.''
                  else [])
             | NonError v \<Rightarrow> (errorMessage @ '': '' @ v, []))
      in (if diagnosticInfo \<noteq> [] then
            errorMessage @ ''\<newline>\<newline>Diagnostic information: '' @ diagnosticInfo
              @ ''\<newline>\<newline>Parallel API docs: https://api.parallel.ai''
          else errorMessage,
          diagnosticInfo))"

definition parallel_baseUrl :: "parallel_config \<Rightarrow> string" where
  "parallel_baseUrl cfg =
     (case pl_baseUrl cfg of
        None \<Rightarrow> parallel_DEFAULT_BASE_URL
      | Some b \<Rightarrow> if b = [] then parallel_DEFAULT_BASE_URL else b)"

definition parallel_request_init :: "parallel_config \<Rightarrow> search_options \<Rightarrow> request_init" where
  "parallel_request_init cfg options =
     (let apiKey = (case pl_apiKey cfg of Some k \<Rightarrow> k | None \<Rightarrow> ''undefined'') in
      \<lparr>headers =
         [(''x-api-key'', apiKey),
          (''Content-Type'', ''application/json''),
          (''parallel-beta'', PARALLEL_BETA_HEADER)],
       init_timeout = timeout options\<rparr>)"

definition parallel_try ::
  "('w, parallel_search_response) post_fn \<Rightarrow> hostname_fn \<Rightarrow> parallel_config \<Rightarrow> string
     \<Rightarrow> search_options \<Rightarrow> string \<Rightarrow> 'w \<Rightarrow> (thrown + search_result list) \<times> 'w" where
  "parallel_try post new_URL_hostname cfg baseUrl options q w =
     (let debugOptions = debug options;
          (settled, w') =
            post baseUrl (JObj (parallel_requestBody cfg options q))
              (parallel_request_init cfg options) w
      in case settled of
           Inl e \<Rightarrow> (Inl e, w')
         | Inr response \<Rightarrow>
             (case debug_logResponse debugOptions ''Parallel Search raw response''
                     (JObj [(''status'', JStr ''success''),
                            (''itemCount'',
                               JNum (case pl_results response of None \<Rightarrow> 0
                                     | Some rs \<Rightarrow> int (length rs))),
                            (''searchId'', JStr (pl_search_id response)),
                            (''warnings'',
                               JArr (case pl_warnings response of None \<Rightarrow> [] | Some ws \<Rightarrow> ws)),
                            (''usage'',
                               JArr (case pl_usage response of None \<Rightarrow> [] | Some us \<Rightarrow> us))]) of
                Inl e \<Rightarrow> (Inl e, w')
              | Inr u \<Rightarrow>
                  (case (if has_length (pl_warnings response) then
                           debug_log debugOptions ''Parallel Search warnings''
                             (JObj [(''warnings'',
                                     JArr (case pl_warnings response of None \<Rightarrow> []
                                           | Some ws \<Rightarrow> ws))])
                         else Inr ()) of
                     Inl e \<Rightarrow> (Inl e, w')
                   | Inr u \<Rightarrow>
                       if pl_results response = None \<or> pl_results response = Some [] then
                         (case debug_log debugOptions ''Parallel Search returned no results''
                                 JUndefined of
                            Inl e \<Rightarrow> (Inl e, w')
                          | Inr u \<Rightarrow> (Inr [], w'))
                       else
                         (Inr (map (parallel_to_result new_URL_hostname)
                                 (case pl_results response of None \<Rightarrow> [] | Some rs \<Rightarrow> rs)),
                          w'))))"

definition parallel_search ::
  "('w, parallel_search_response) post_fn \<Rightarrow> hostname_fn \<Rightarrow> parallel_config \<Rightarrow> string
     \<Rightarrow> 'w search_fn" where
  "parallel_search post new_URL_hostname cfg baseUrl options w =
     (let debugOptions = debug options in
      case query options of
        None \<Rightarrow> (Inl (Error ''Parallel search requires a query.''), w)
      | Some q \<Rightarrow>
          if q = [] \<or> trim q = [] then (Inl (Error ''Parallel search requires a query.''), w)
          else
            case debug_logRequest debugOptions ''Parallel Search request''
                   (JObj [(''url'', JStr baseUrl),
                          (''body'', JObj (parallel_requestBody cfg options q
                                            @ [(''apiKey'', JStr ''***'')]))]) of
              Inl e \<Rightarrow> (Inl e, w)
            | Inr u \<Rightarrow>
                (let (attempt, w') = parallel_try post new_URL_hostname cfg baseUrl options q w in
                 case attempt of
                   Inr results \<Rightarrow> (Inr results, w')
                 | Inl error \<Rightarrow>
                     (let (errorMessage, diagnosticInfo) = parallel_errorMessage error in
                      case debug_log debugOptions ''Parallel Search error''
                             (JObj [(''error'', JStr (message_or_String error)),
                                    (''statusCode'', opt_num (statusCode_of error)),
                                    (''diagnosticInfo'', JStr diagnosticInfo)]) of
                        Inl e \<Rightarrow> (Inl e, w')
                      | Inr u \<Rightarrow> (Inl (Error errorMessage), w'))))"

definition createParallelProvider ::
  "('w, parallel_search_response) post_fn \<Rightarrow> hostname_fn \<Rightarrow> parallel_config
     \<Rightarrow> thrown + 'w search_provider" where
  "createParallelProvider post new_URL_hostname cfg =
     (if \<not> truthy (pl_apiKey cfg) then Inl (Error ''Parallel requires an API key'')
      else
        let baseUrl = parallel_baseUrl cfg
        in Inr \<lparr>name = ''parallel'',
                config = ParallelConfig cfg,
                search = parallel_search post new_URL_hostname cfg baseUrl\<rparr>)"

text \<open>The module-level object \<open>parallel\<close> (here \<open>parallel_singleton\<close>: the library has a constant \<open>parallel\<close>).\<close>

definition parallel_singleton :: "'w search_provider" where
  "parallel_singleton =
     \<lparr>name = ''parallel'',
      config = ParallelConfig
        \<lparr>pl_apiKey = Some [], pl_baseUrl = None, pl_mode = None, pl_maxResults = None,
         pl_includeDomains = None, pl_excludeDomains = None, pl_afterDate = None,
         pl_beforeDate = None, pl_maxCharsPerResult = None, pl_excerptCount = None,
         pl_fetchStrategy = None, pl_metadata = None\<rparr>,
      search =
        (\<lambda>options w.
           (Inl (Error ''Parallel search provider must be configured before use. Call parallel.configure() first.''),
            w))\<rparr>"

definition parallel_configure ::
  "('w, parallel_search_response) post_fn \<Rightarrow> hostname_fn \<Rightarrow> parallel_config
     \<Rightarrow> thrown + 'w search_provider" where
  "parallel_configure post new_URL_hostname cfg = createParallelProvider post new_URL_hostname cfg"

section \<open>The Arxiv adapter (src/providers/arxiv.ts)\<close>

text \<open>
  Besides the transport helper \<open>get\<close>, the adapter uses the XML parser of
  \<open>fast-xml-parser\<close> and the platform's \<open>URLSearchParams\<close> and \<open>JSON.stringify\<close>;
  they are parameters too. The parser gives the parsed document (\<open>None\<close> for a falsy
  value) or throws.
\<close>

type_synonym 'w get_fn = "string \<Rightarrow> int option \<Rightarrow> 'w \<Rightarrow> (thrown + string) \<times> 'w"

record arxiv_platform =
  XMLParser_parse :: "string \<Rightarrow> thrown + arxiv_parsed_xml option"
  URLSearchParams_toString :: "(string \<times> string) list \<Rightarrow> string"
  JSON_stringify :: "jsval \<Rightarrow> string"

definition arxiv_DEFAULT_BASE_URL :: string where
  "arxiv_DEFAULT_BASE_URL = ''http://export.arxiv.org/api/query''"

fun js_truthy :: "jsval \<Rightarrow> bool" where
  "js_truthy JUndefined = False"
| "js_truthy JNull = False"
| "js_truthy (JBool b) = b"
| "js_truthy (JNum n) = (n \<noteq> 0)"
| "js_truthy (JStr s) = (s \<noteq> [])"
| "js_truthy (JArr xs) = True"
| "js_truthy (JObj kvs) = True"

text \<open>\<^verbatim>\<open>s.replace(/\n\s*/g, ' ')\<close>: every line feed, with the white space after it, becomes one space.\<close>

function replace_newline_runs :: "string \<Rightarrow> string" where
  "replace_newline_runs [] = []"
| "replace_newline_runs (c # cs) =
     (if c = CHR 0x0A then CHR '' '' # replace_newline_runs (dropWhile is_white_space cs)
      else c # replace_newline_runs cs)"
  by pat_completeness auto
termination
  by (relation "measure length") (auto simp: length_dropWhile_le less_Suc_eq_le)

text \<open>\<^verbatim>\<open>s.replace(pattern, replacement)\<close> with a string pattern: the first occurrence only.\<close>

fun replace_first :: "string \<Rightarrow> string \<Rightarrow> string \<Rightarrow> string" where
  "replace_first pat rep [] = (if pat = [] then rep else [])"
| "replace_first pat rep (c # cs) =
     (if prefix pat (c # cs) then rep @ drop (length pat) (c # cs)
      else c # replace_first pat rep cs)"

text \<open>\<^verbatim>\<open>parseInt(s, 10)\<close>; \<open>None\<close> is \<open>NaN\<close>.\<close>

definition is_digit :: "char \<Rightarrow> bool" where
  "is_digit c = (48 \<le> (of_char c :: nat) \<and> (of_char c :: nat) \<le> 57)"

definition digits_value :: "string \<Rightarrow> int" where
  "digits_value ds = foldl (\<lambda>a c. 10 * a + (int (of_char c) - 48)) 0 ds"

definition js_parseInt10 :: "string \<Rightarrow> int option" where
  "js_parseInt10 s =
     (let s1 = dropWhile is_white_space s;
          (sign, s2) = (case s1 of
                          [] \<Rightarrow> (1, [])
                        | c # r \<Rightarrow> if c = CHR ''-'' then (- 1, r)
                                   else if c = CHR ''+'' then (1, r) else (1, s1));
          ds = takeWhile is_digit s2
      in if ds = [] then None else Some (sign * digits_value ds))"

text \<open>\<^verbatim>\<open>array.map(f)\<close> with a callback that may throw: the first throw ends the loop.\<close>

fun map_throwing :: "('a \<Rightarrow> thrown + 'b) \<Rightarrow> 'a list \<Rightarrow> thrown + 'b list" where
  "map_throwing f [] = Inr []"
| "map_throwing f (x # xs) =
     (case f x of
        Inl e \<Rightarrow> Inl e
      | Inr y \<Rightarrow> (case map_throwing f xs of Inl e \<Rightarrow> Inl e | Inr ys \<Rightarrow> Inr (y # ys)))"

text \<open>
  The callback of \<^verbatim>\<open>entries.map(...)\<close>. \<open>entry.title.replace\<close> on a missing title
  throws a \<open>TypeError\<close> (the message is the one of V8).
\<close>

definition arxiv_to_result :: "arxiv_atom_entry \<Rightarrow> thrown + search_result" where
  "arxiv_to_result entry =
     (let links = (case ae_link entry of None \<Rightarrow> [] | Some ls \<Rightarrow> ls);
          pdfLinkObj = find (\<lambda>l. al_title l = Some ''pdf'') links;
          alternateLink = find (\<lambda>l. al_rel l = ''alternate'' \<and> al_type l = Some ''text/html'') links;
          pdfLink =
            (case pdfLinkObj of
               Some l \<Rightarrow> al_href l
             | None \<Rightarrow>
                 (case alternateLink of
                    Some l \<Rightarrow> replace_first ''/abs/'' ''/pdf/'' (al_href l)
                  | None \<Rightarrow> []));
          authors_list =
            filter (\<lambda>n. n \<noteq> [])
              (map au_name (case ae_author entry of None \<Rightarrow> [] | Some a \<Rightarrow> a));
          categories_list =
            filter (\<lambda>t. t \<noteq> [])
              (map cat_term (case ae_category entry of None \<Rightarrow> [] | Some c \<Rightarrow> c))
      in case ae_title entry of
           None \<Rightarrow>
             Inl (Error (''Cannot read properties of undefined (reading '' @ apostrophe
                           @ ''replace'' @ apostrophe @ '')''))
         | Some t \<Rightarrow>
             Inr \<lparr>url = (if pdfLink \<noteq> [] then Some pdfLink else ae_id entry),
                  title = Some (trim (replace_newline_runs t)),
                  snippet = Some (trim (replace_newline_runs (ae_summary entry))),
                  content = None,
                  domain = None,
                  publishedDate =
                    Some (if ae_published entry \<noteq> [] then ae_published entry
                          else ae_updated entry),
                  provider = Some ''arxiv'',
                  raw = Some (ArxivRaw entry),
                  authors = Some authors_list,
                  categories = Some categories_list\<rparr>)"

definition arxiv_errorMessage :: "arxiv_platform \<Rightarrow> thrown \<Rightarrow> string" where
  "arxiv_errorMessage pf error =
     (case error of
        HttpError m c b \<Rightarrow>
          ''Arxiv API error: '' @ show_int c @ '' - '' @ m
          @ (if js_truthy b then ''\<newline>Response: '' @ JSON_stringify pf b else [])
      | Error m \<Rightarrow> ''Arxiv search failed: '' @ m
      | NonError v \<Rightarrow> ''Arxiv search failed: '' @ v)"

text \<open>
  The \<^verbatim>\<open>try\<close> block of \<open>search\<close>. Two log payloads are not modelled and are passed
  as \<open>JUndefined\<close>: the parsed document and the stack trace.
\<close>

definition arxiv_try ::
  "'w get_fn \<Rightarrow> arxiv_platform \<Rightarrow> search_options \<Rightarrow> string \<Rightarrow> 'w
     \<Rightarrow> (thrown + search_result list) \<times> 'w" where
  "arxiv_try get pf options request_url w =
     (let debugOptions = debug options;
          (settled, w') = get request_url (timeout options) w
      in case settled of
           Inl e \<Rightarrow> (Inl e, w')
         | Inr responseXmlText \<Rightarrow>
             (case debug_log debugOptions ''Arxiv raw XML response received''
                     (JObj [(''length'', JNum (int (length responseXmlText)))]) of
                Inl e \<Rightarrow> (Inl e, w')
              | Inr u \<Rightarrow>
                  (case XMLParser_parse pf responseXmlText of
                     Inl e \<Rightarrow> (Inl e, w')
                   | Inr parsedXml \<Rightarrow>
                       (case debug_log debugOptions ''Arxiv XML parsed successfully'' JUndefined of
                          Inl e \<Rightarrow> (Inl e, w')
                        | Inr u \<Rightarrow>
                            (case (case parsedXml of None \<Rightarrow> None | Some doc \<Rightarrow> feed doc) of
                               None \<Rightarrow>
                                 (case debug_log debugOptions
                                         ''Arxiv parsed data is empty or malformed''
                                         (JObj [(''parsedXml'', JUndefined)]) of
                                    Inl e \<Rightarrow> (Inl e, w')
                                  | Inr u \<Rightarrow> (Inr [], w'))
                             | Some fd \<Rightarrow>
                                 (let entries = (case feed_entry fd of None \<Rightarrow> []
                                                 | Some es \<Rightarrow> es)
                                  in if entries = [] then
                                       (case debug_log debugOptions
                                               ''No entries found in Arxiv response'' JUndefined of
                                          Inl e \<Rightarrow> (Inl e, w')
                                        | Inr u \<Rightarrow> (Inr [], w'))
                                     else
                                       (case map_throwing arxiv_to_result entries of
                                          Inl e \<Rightarrow> (Inl e, w')
                                        | Inr results \<Rightarrow>
                                            (let totalResults =
                                                   (case js_parseInt10 (feed_totalResults fd) of
                                                      None \<Rightarrow> 0 | Some n \<Rightarrow> n)
                                             in case debug_logResponse debugOptions
                                                       ''Arxiv Search successful''
                                                       (JObj [(''status'', JStr ''success''),
                                                              (''itemCount'',
                                                                 JNum (int (length results))),
                                                              (''totalResults'',
                                                                 JNum totalResults)]) of
                                                  Inl e \<Rightarrow> (Inl e, w')
                                                | Inr u \<Rightarrow> (Inr results, w')))))))))"

text \<open>The URL of the request: the base URL and the encoded parameters.\<close>

definition arxiv_request_url :: "arxiv_platform \<Rightarrow> string \<Rightarrow> search_options \<Rightarrow> string" where
  "arxiv_request_url pf baseUrl options =
     (let maxResults = (case maxResults options of None \<Rightarrow> 10 | Some n \<Rightarrow> n);
          start = (case start options of None \<Rightarrow> 0 | Some n \<Rightarrow> n);
          sortBy = (case sortBy options of None \<Rightarrow> ''relevance'' | Some v \<Rightarrow> v);
          sortOrder = (case sortOrder options of None \<Rightarrow> ''descending'' | Some v \<Rightarrow> v);
          params =
            (if truthy (query options)
             then (case query options of None \<Rightarrow> [] | Some q \<Rightarrow> [(''search_query'', q)])
             else [])
            @ (if truthy (idList options)
               then (case idList options of None \<Rightarrow> [] | Some ids \<Rightarrow> [(''id_list'', ids)])
               else [])
            @ [(''start'', show_int start),
               (''max_results'', show_int maxResults),
               (''sortBy'', sortBy),
               (''sortOrder'', sortOrder)]
      in baseUrl @ ''?'' @ URLSearchParams_toString pf params)"

definition arxiv_baseUrl :: "arxiv_config \<Rightarrow> string" where
  "arxiv_baseUrl cfg =
     (case ax_baseUrl cfg of
        None \<Rightarrow> arxiv_DEFAULT_BASE_URL
      | Some b \<Rightarrow> if b = [] then arxiv_DEFAULT_BASE_URL else b)"

definition arxiv_search :: "'w get_fn \<Rightarrow> arxiv_platform \<Rightarrow> string \<Rightarrow> 'w search_fn" where
  "arxiv_search get pf baseUrl options w =
     (let debugOptions = debug options in
      if \<not> truthy (query options) \<and> \<not> truthy (idList options) then
        (Inl (Error ''Arxiv search requires either a \"query\" or an \"idList\".''), w)
      else
        let request_url = arxiv_request_url pf baseUrl options
        in
        case debug_logRequest debugOptions ''Arxiv Search request''
               (JObj [(''url'', JStr request_url)]) of
          Inl e \<Rightarrow> (Inl e, w)
        | Inr u \<Rightarrow>
            (let (attempt, w') = arxiv_try get pf options request_url w in
             case attempt of
               Inr results \<Rightarrow> (Inr results, w')
             | Inl error \<Rightarrow>
                 (let errorMessage = arxiv_errorMessage pf error in
                  case debug_log debugOptions ''Arxiv Search error''
                         (JObj [(''error'', JStr (message_or_String error)),
                                (''stack'', JUndefined),
                                (''statusCode'', opt_num (statusCode_of error)),
                                (''url'', JStr request_url)]) of
                    Inl e \<Rightarrow> (Inl e, w')
                  | Inr u \<Rightarrow> (Inl (Error errorMessage), w'))))"

definition createArxivProvider :: "'w get_fn \<Rightarrow> arxiv_platform \<Rightarrow> arxiv_config \<Rightarrow> 'w search_provider" where
  "createArxivProvider get pf cfg =
     (let baseUrl = arxiv_baseUrl cfg
      in \<lparr>name = ''arxiv'',
          config = ArxivConfig
            (cfg\<lparr>ax_apiKey :=
                   Some (case ax_apiKey cfg of None \<Rightarrow> [] | Some k \<Rightarrow> k)\<rparr>),
          search = arxiv_search get pf baseUrl\<rparr>)"

text \<open>The module-level object \<open>arxiv\<close>.\<close>

definition arxiv :: "'w search_provider" where
  "arxiv =
     \<lparr>name = ''arxiv'',
      config = ArxivConfig
        \<lparr>ax_apiKey = Some [], ax_baseUrl = None, ax_sortBy = None, ax_sortOrder = None\<rparr>,
      search =
        (\<lambda>options w.
           (Inl (Error ''Arxiv provider must be configured before use. Call arxiv.configure() first, even with empty options if defaults are fine.''),
            w))\<rparr>"

definition arxiv_configure :: "'w get_fn \<Rightarrow> arxiv_platform \<Rightarrow> arxiv_config \<Rightarrow> 'w search_provider" where
  "arxiv_configure get pf cfg = createArxivProvider get pf cfg"

text \<open>Inputs taken from the tests of \<open>webSearch\<close>.\<close>

definition two_resolving :: "calls web_search_options" where
  "two_resolving = mk_options (Some ''test'')
     [makeProvider ''google'' [mk_result ''https://a.com'' ''A'' ''google''] False None,
      makeProvider ''brave'' [mk_result ''https://b.com'' ''B'' ''brave''] False None]"

definition two_rejecting :: "calls web_search_options" where
  "two_rejecting = mk_options (Some ''test'')
     [makeProvider ''google'' [] True (Some (Error ''google error'')),
      makeProvider ''brave'' [] True (Some (Error ''brave error''))]"

section \<open>Sample transports and inputs\<close>

text \<open>
  A transport in the manner of the tests' \<open>mockFetch\<close>: it answers every request with the
  same body and records the URL it was called with. The world is the list of these URLs.
\<close>

definition mock_post :: "'r \<Rightarrow> (string list, 'r) post_fn" where
  "mock_post body request_url request_body init w = (Inr body, w @ [request_url])"

definition mock_get :: "string \<Rightarrow> string list get_fn" where
  "mock_get body request_url request_timeout w = (Inr body, w @ [request_url])"

text \<open>
  A stand-in for \<open>new URL(s).hostname\<close>, enough for the sample inputs: an \<open>https://\<close>
  URL has the host name up to the next slash, anything else does not parse.
\<close>

definition sample_hostname :: hostname_fn where
  "sample_hostname s =
     (if prefix ''https://'' s \<and> drop 8 s \<noteq> []
      then Some (takeWhile (\<lambda>c. c \<noteq> CHR ''/'') (drop 8 s))
      else None)"

text \<open>A stand-in platform for the Arxiv adapter: the parser answers with a fixed document.\<close>

definition sample_platform :: "arxiv_parsed_xml option \<Rightarrow> arxiv_platform" where
  "sample_platform doc =
     \<lparr>XMLParser_parse = (\<lambda>text. Inr doc),
      URLSearchParams_toString =
        (\<lambda>params. join (map (\<lambda>(k, v). k @ ''='' @ v) params) ''&''),
      JSON_stringify = (\<lambda>v. ''{}'')\<rparr>"

definition sample_perplexity_config :: perplexity_config where
  "sample_perplexity_config =
     \<lparr>px_apiKey = Some ''test-key'', px_baseUrl = None, px_maxTokens = None,
      px_maxTokensPerPage = None, px_country = None, px_searchDomainFilter = None,
      px_searchRecencyFilter = None, px_searchAfterDate = None, px_searchBeforeDate = None,
      px_searchLanguageFilter = None\<rparr>"

definition sample_parallel_config :: parallel_config where
  "sample_parallel_config =
     \<lparr>pl_apiKey = Some ''test-key'', pl_baseUrl = None, pl_mode = None, pl_maxResults = None,
      pl_includeDomains = None, pl_excludeDomains = None, pl_afterDate = None,
      pl_beforeDate = None, pl_maxCharsPerResult = None, pl_excerptCount = None,
      pl_fetchStrategy = None, pl_metadata = None\<rparr>"

definition sample_arxiv_config :: arxiv_config where
  "sample_arxiv_config =
     \<lparr>ax_apiKey = None, ax_baseUrl = None, ax_sortBy = None, ax_sortOrder = None\<rparr>"

definition sample_search_options :: search_options where
  "sample_search_options =
     \<lparr>query = Some ''test'', idList = None, maxResults = None, language = None, region = None,
      safeSearch = None, page = None, start = None, sortBy = None, sortOrder = None,
      searchType = None, timeout = None, debug = None\<rparr>"

text \<open>Native records and responses in the manner of the adapters' tests.\<close>

definition px_good :: perplexity_search_result where
  "px_good =
     \<lparr>px_title = Some ''Test'', px_url = Some ''https://example.com/page'',
      px_snippet = ''content'', px_date = ''2024-01-01'', px_last_updated = []\<rparr>"






definition parallel_response :: "parallel_web_search_result list option \<Rightarrow> parallel_search_response" where
  "parallel_response rs =
     \<lparr>pl_search_id = ''search-1'', pl_results = rs, pl_warnings = None, pl_usage = None\<rparr>"


definition arxiv_document :: "arxiv_atom_entry list option \<Rightarrow> arxiv_parsed_xml option" where
  "arxiv_document es =
     Some \<lparr>feed = Some \<lparr>feed_entry = es, feed_totalResults = ''1'', feed_startIndex = ''0'',
                         feed_itemsPerPage = ''10''\<rparr>\<rparr>"




section \<open>Notions used to state the properties\<close>

text \<open>The options object every adapter's \<open>search\<close> receives from \<open>webSearch\<close>.\<close>

definition adapter_options :: "('w, 'z) web_search_options_scheme \<Rightarrow> search_options" where
  "adapter_options options = (search_options.truncate options)\<lparr>debug := debug options\<rparr>"

text \<open>
  What each adapter's \<open>search\<close> settles with during one call, in the order of the list,
  and the world they leave.
\<close>

fun settle_all ::
  "search_options \<Rightarrow> 'w search_provider list \<Rightarrow> 'w \<Rightarrow> (thrown + search_result list) list \<times> 'w" where
  "settle_all so [] w = ([], w)"
| "settle_all so (p # ps) w =
     (let (r, w1) = search p so w;
          (rs, w2) = settle_all so ps w1
      in (r # rs, w2))"

text \<open>The results of the adapters that resolved, in order, each with the name of its adapter.\<close>

fun tagged_results ::
  "'w search_provider list \<Rightarrow> (thrown + search_result list) list \<Rightarrow> (string \<times> search_result) list" where
  "tagged_results (p # ps) (r # rs) =
     (case r of Inr xs \<Rightarrow> map (Pair (name p)) xs | Inl e \<Rightarrow> []) @ tagged_results ps rs"
| "tagged_results ps rs = []"

text \<open>The failure messages of the adapters that rejected, in order.\<close>

fun failure_messages ::
  "'w search_provider list \<Rightarrow> (thrown + search_result list) list \<Rightarrow> string list" where
  "failure_messages (p # ps) (r # rs) =
     (case r of Inr xs \<Rightarrow> [] | Inl e \<Rightarrow> [detailedErrorMessage_of (name p) e])
       @ failure_messages ps rs"
| "failure_messages ps rs = []"

text \<open>The outcome objects built from what the adapters settled with.\<close>

fun settled_outcomes ::
  "'w search_provider list \<Rightarrow> (thrown + search_result list) list \<Rightarrow> aggregated_outcome list" where
  "settled_outcomes (p # ps) (r # rs) =
     (case r of
        Inr xs \<Rightarrow> \<lparr>outcome_provider = name p, outcome_results = xs, outcome_error = None\<rparr>
      | Inl e \<Rightarrow> \<lparr>outcome_provider = name p, outcome_results = [],
                  outcome_error = Some (detailedErrorMessage_of (name p) e)\<rparr>)
       # settled_outcomes ps rs"
| "settled_outcomes ps rs = []"

text \<open>The native result list of a response; empty when the list is missing.\<close>

definition perplexity_native_results :: "perplexity_search_response \<Rightarrow> perplexity_search_result list" where
  "perplexity_native_results response =
     (case px_results response of None \<Rightarrow> [] | Some rs \<Rightarrow> rs)"

definition parallel_native_results :: "parallel_search_response \<Rightarrow> parallel_web_search_result list" where
  "parallel_native_results response =
     (case pl_results response of None \<Rightarrow> [] | Some rs \<Rightarrow> rs)"

definition arxiv_native_results :: "arxiv_parsed_xml option \<Rightarrow> arxiv_atom_entry list" where
  "arxiv_native_results doc =
     (case doc of
        None \<Rightarrow> []
      | Some d \<Rightarrow>
          (case feed d of
             None \<Rightarrow> []
           | Some fd \<Rightarrow> (case feed_entry fd of None \<Rightarrow> [] | Some es \<Rightarrow> es)))"

text \<open>The two precondition checks of \<open>webSearch\<close> both pass.\<close>

definition passes_validation :: "('w, 'z) web_search_options_scheme \<Rightarrow> bool" where
  "passes_validation options =
     (provider_arg options \<noteq> []
      \<and> (truthy (query options)
          \<or> (list_ex (\<lambda>p. name p = ''arxiv'') (provider_arg options) \<and> truthy (idList options))))"

section \<open>Properties\<close>

subsection \<open>The debug hook never throws\<close>

lemma call_swallowing_returns: "call_swallowing lg message data = Inr ()"
  by (simp add: call_swallowing_def split: sum.splits)

lemma debug_log_returns: "debug_log options message data = Inr ()"
  by (simp add: debug_log_def Let_def call_swallowing_returns split: option.splits)

lemma debug_logRequest_returns: "debug_logRequest options message data = Inr ()"
  by (simp add: debug_logRequest_def Let_def call_swallowing_returns split: option.splits)

lemma debug_logResponse_returns: "debug_logResponse options message data = Inr ()"
  by (simp add: debug_logResponse_def Let_def call_swallowing_returns split: option.splits)

text \<open>
  C10. For every debug options value (missing, disabled, enabled, with the default logger
  or with a caller-supplied one that throws), every message and every data argument,
  \<open>debug.log\<close>, \<open>debug.logRequest\<close> and \<open>debug.logResponse\<close> return normally:
  whatever the logger throws is caught and dropped.
\<close>

theorem debug_never_throws:
  "debug_log options message data = Inr ()
   \<and> debug_logRequest options message data = Inr ()
   \<and> debug_logResponse options message data = Inr ()"
  by (simp add: debug_log_returns debug_logRequest_returns debug_logResponse_returns)

theorem debug_never_throws_witness:
  "debug_log (Some \<lparr>enabled = Some True, logRequests = Some True, logResponses = Some True,
                    logger = Some throwingLogger\<rparr>) ''msg'' JUndefined = Inr ()
   \<and> debug_logRequest (Some \<lparr>enabled = Some True, logRequests = Some True,
                    logResponses = Some True, logger = Some throwingLogger\<rparr>) ''msg'' JUndefined = Inr ()
   \<and> debug_logResponse (Some \<lparr>enabled = Some True, logRequests = Some True,
                    logResponses = Some True, logger = Some throwingLogger\<rparr>) ''msg'' JUndefined = Inr ()
   \<and> throwingLogger ''msg'' JUndefined = Inl (Error ''logger failure'')"
  using debug_never_throws [of "Some \<lparr>enabled = Some True, logRequests = Some True,
      logResponses = Some True, logger = Some throwingLogger\<rparr>" "''msg''" JUndefined]
  by (simp add: throwingLogger_def)

subsection \<open>The aggregation engine in terms of what the adapters settled with\<close>

lemma searchPromise_resolved:
  "search p (adapter_options options) w = (Inr xs, w') \<Longrightarrow>
   searchPromise options p w =
     (Inr \<lparr>outcome_provider = name p, outcome_results = xs, outcome_error = None\<rparr>, w')"
  by (simp add: searchPromise_def adapter_options_def Let_def debug_logResponse_returns)

lemma searchPromise_rejected:
  "search p (adapter_options options) w = (Inl e, w') \<Longrightarrow>
   searchPromise options p w =
     (Inr \<lparr>outcome_provider = name p, outcome_results = [],
           outcome_error = Some (detailedErrorMessage_of (name p) e)\<rparr>, w')"
  by (simp add: searchPromise_def adapter_options_def Let_def debug_log_returns)

lemma searchPromises_settled:
  "settle_all (adapter_options options) ps w = (rs, w') \<Longrightarrow>
   searchPromises options ps w = (map Inr (settled_outcomes ps rs), w')"
proof (induction ps arbitrary: w rs w')
  case Nil
  then show ?case by simp
next
  case (Cons p ps)
  obtain r w1 where s1: "search p (adapter_options options) w = (r, w1)"
    by (cases "search p (adapter_options options) w")
  obtain rs1 w2 where s2: "settle_all (adapter_options options) ps w1 = (rs1, w2)"
    by (cases "settle_all (adapter_options options) ps w1")
  from Cons.prems s1 s2 have rs: "rs = r # rs1" and w': "w' = w2" by simp_all
  have ih: "searchPromises options ps w1 = (map Inr (settled_outcomes ps rs1), w2)"
    using Cons.IH [OF s2] .
  show ?case
  proof (cases r)
    case (Inl e)
    with s1 have "searchPromise options p w =
      (Inr \<lparr>outcome_provider = name p, outcome_results = [],
           outcome_error = Some (detailedErrorMessage_of (name p) e)\<rparr>, w1)"
      by (simp add: searchPromise_rejected)
    with ih rs w' Inl show ?thesis by simp
  next
    case (Inr xs)
    with s1 have "searchPromise options p w =
      (Inr \<lparr>outcome_provider = name p, outcome_results = xs, outcome_error = None\<rparr>, w1)"
      by (simp add: searchPromise_resolved)
    with ih rs w' Inr show ?thesis by simp
  qed
qed

lemma Promise_all_resolved: "Promise_all (map Inr xs) = Inr xs"
  by (induction xs) simp_all

lemma settle_all_length: "settle_all so ps w = (rs, w') \<Longrightarrow> length rs = length ps"
  by (induction ps arbitrary: w rs) (auto split: prod.splits)

lemma collect_settled:
  "length rs = length ps \<Longrightarrow>
   collect dbg (settled_outcomes ps rs) (acc, errs) =
     Inr (acc @ map snd (tagged_results ps rs), errs @ failure_messages ps rs)"
proof (induction ps rs arbitrary: acc errs rule: settled_outcomes.induct)
  case (1 p ps r rs)
  then show ?case by (cases r) (simp_all add: debug_log_returns comp_def)
qed simp_all


lemma webSearch_settled:
  assumes v: "passes_validation options"
    and s: "settle_all (adapter_options options) (provider_arg options) w = (rs, w')"
  shows "webSearch options w =
     (if tagged_results (provider_arg options) rs = [] \<and> failure_messages (provider_arg options) rs \<noteq> []
      then Inl (Error (''All '' @ show_nat (length (provider_arg options))
                      @ '' provider(s) failed:\<newline>\<newline>''
                      @ join (failure_messages (provider_arg options) rs) ''\<newline>\<newline>''))
      else Inr (map snd (tagged_results (provider_arg options) rs)), w')"
proof -
  have len: "length rs = length (provider_arg options)"
    using settle_all_length [OF s] .
  have sp: "searchPromises options (provider_arg options) w =
      (map Inr (settled_outcomes (provider_arg options) rs), w')"
    using searchPromises_settled [OF s] .
  have co: "collect (debug options) (settled_outcomes (provider_arg options) rs) ([], []) =
      Inr (map snd (tagged_results (provider_arg options) rs), failure_messages (provider_arg options) rs)"
    using collect_settled [OF len, of "debug options" "[]" "[]"] by simp
  from v have ne: "provider_arg options \<noteq> []"
    and q: "truthy (query options) \<or> (list_ex (\<lambda>p. name p = ''arxiv'') (provider_arg options) \<and> truthy (idList options))"
    by (simp_all add: passes_validation_def)
  show ?thesis
    using ne q by (simp add: webSearch_def Let_def debug_log_returns sp Promise_all_resolved co)
qed


lemma webSearch_partial_success:
  assumes "passes_validation options"
    and "settle_all (adapter_options options) (provider_arg options) w = (rs, w')"
    and "tagged_results (provider_arg options) rs \<noteq> []"
  shows "webSearch options w = (Inr (map snd (tagged_results (provider_arg options) rs)), w')"
  using webSearch_settled [OF assms(1) assms(2)] assms(3) by simp

lemma tagged_results_all_resolved:
  "length rs = length ps \<Longrightarrow> \<forall>r\<in>set rs. \<not> isl r \<Longrightarrow>
   map snd (tagged_results ps rs) = concat (map projr rs)"
proof (induction ps rs rule: tagged_results.induct)
  case (1 p ps r rs)
  then show ?case by (cases r) (simp_all add: comp_def)
qed simp_all

lemma failure_messages_all_resolved:
  "\<forall>r\<in>set rs. \<not> isl r \<Longrightarrow> failure_messages ps rs = []"
proof (induction ps rs rule: failure_messages.induct)
  case (1 p ps r rs)
  then show ?case by (cases r) simp_all
qed simp_all

lemma tagged_results_provider:
  "length rs = length ps \<Longrightarrow>
   (\<forall>(n, x)\<in>set (tagged_results ps rs). provider x = Some n)
   = (\<forall>i<length ps. \<forall>xs. rs ! i = Inr xs \<longrightarrow> (\<forall>x\<in>set xs. provider x = Some (name (ps ! i))))"
proof (induction ps rs rule: tagged_results.induct)
  case (1 p ps r rs)
  then have ih: "(\<forall>(n, x)\<in>set (tagged_results ps rs). provider x = Some n)
   = (\<forall>i<length ps. \<forall>xs. rs ! i = Inr xs \<longrightarrow> (\<forall>x\<in>set xs. provider x = Some (name (ps ! i))))"
    by simp
  show ?case
    by (cases r) (auto simp: ih All_less_Suc2 ball_Un)
qed simp_all

lemma str_includes_sublist: "str_includes s sub = sublist sub s"
  by (induction s) (simp_all add: sublist_Cons_right)

lemma sublist_join: "e \<in> set es \<Longrightarrow> sublist e (join es sep)"
proof (induction es sep rule: join.induct)
  case (3 x y ys sep)
  show ?case
  proof (cases "e = x")
    case True
    then show ?thesis by simp
  next
    case False
    with 3 have "sublist e (join (y # ys) sep)" by simp
    then obtain a b where "join (y # ys) sep = a @ e @ b" by (auto simp: sublist_def)
    then have "join (x # y # ys) sep = (x @ sep @ a) @ e @ b" by simp
    then show ?thesis unfolding sublist_def by blast
  qed
qed simp_all

lemma sublist_detailedErrorMessage:
  "sublist (''Search with provider '' @ apostrophe @ n @ apostrophe @ '' failed: '' @ message_or_String e)
     (detailedErrorMessage_of n e)"
  by (simp add: detailedErrorMessage_of_def Let_def)

lemma sublist_trans: "sublist a b \<Longrightarrow> sublist b c \<Longrightarrow> sublist a c"
  using sublist_order.order_trans by blast

lemma failure_messages_all_rejected:
  "length rs = length ps \<Longrightarrow> \<forall>r\<in>set rs. isl r \<Longrightarrow>
   failure_messages ps rs = map (\<lambda>i. detailedErrorMessage_of (name (ps ! i)) (projl (rs ! i))) [0..<length ps]"
proof (induction ps rs rule: failure_messages.induct)
  case (1 p ps r rs)
  then have ih: "failure_messages ps rs = map (\<lambda>i. detailedErrorMessage_of (name (ps ! i)) (projl (rs ! i))) [0..<length ps]"
    by simp
  from 1 obtain e where r: "r = Inl e" by (cases r) simp_all
  have "[0..<length (p # ps)] = 0 # map Suc [0..<length ps]"
    by (simp add: upt_conv_Cons map_Suc_upt del: upt_Suc)
  then show ?case by (simp add: r ih comp_def del: upt_Suc)
qed simp_all

lemma tagged_results_all_rejected:
  "\<forall>r\<in>set rs. isl r \<Longrightarrow> tagged_results ps rs = []"
proof (induction ps rs rule: tagged_results.induct)
  case (1 p ps r rs)
  then show ?case by (cases r) simp_all
qed simp_all

lemmas eval_defs = webSearch_def mk_options_def makeProvider_def searchPromise_def Let_def
  debug_log_returns debug_logResponse_returns search_options.truncate_def
  detailedErrorMessage_of_def getTroubleshootingInfo_def provider_suggestions_def
  object_Object_hint_def status_suggestions_def apostrophe_def digit_char_def mk_result_def
  adapter_options_def passes_validation_def opt_str_def opt_num_def trim_def is_white_space_def

subsection \<open>All adapters resolve\<close>

text \<open>
  C1 (as amended). When the call passes the two precondition checks and every adapter's
  search resolves, \<open>webSearch\<close> resolves with the concatenation of the adapters' result
  arrays in the order the adapters were supplied, every element as its adapter returned it.
  \<open>webSearch\<close> neither sets nor checks the \<open>provider\<close> field: each element's
  \<open>provider\<close> equals the name of the adapter that produced it exactly when every adapter
  has set it so on its own results.
\<close>

theorem all_resolved_concatenation:
  assumes v: "passes_validation options"
    and s: "settle_all (adapter_options options) (provider_arg options) w = (rs, w')"
    and res: "\<forall>r\<in>set rs. \<not> isl r"
  shows "webSearch options w = (Inr (concat (map projr rs)), w')
     \<and> concat (map projr rs) = map snd (tagged_results (provider_arg options) rs)
     \<and> ((\<forall>(n, x)\<in>set (tagged_results (provider_arg options) rs). provider x = Some n)
        = (\<forall>i<length (provider_arg options). \<forall>x\<in>set (projr (rs ! i)).
              provider x = Some (name (provider_arg options ! i))))"
proof -
  let ?ps = "provider_arg options"
  have len: "length rs = length ?ps" using settle_all_length [OF s] .
  have t: "map snd (tagged_results ?ps rs) = concat (map projr rs)"
    using tagged_results_all_resolved [OF len res] .
  have f: "failure_messages ?ps rs = []" using failure_messages_all_resolved [OF res] .
  have ws: "webSearch options w = (Inr (concat (map projr rs)), w')"
    using webSearch_settled [OF v s] f t by simp
  have "(\<forall>i<length ?ps. \<forall>xs. rs ! i = Inr xs \<longrightarrow> (\<forall>x\<in>set xs. provider x = Some (name (?ps ! i))))
      = (\<forall>i<length ?ps. \<forall>x\<in>set (projr (rs ! i)). provider x = Some (name (?ps ! i)))"
  proof -
    have "\<exists>xs. rs ! i = Inr xs" if "i < length ?ps" for i
      using that res len by (cases "rs ! i") (auto simp: all_set_conv_all_nth)
    then show ?thesis by (metis sum.sel(2))
  qed
  with tagged_results_provider [OF len] ws t show ?thesis by simp
qed

theorem all_resolved_concatenation_witness:
  "passes_validation two_resolving
   \<and> webSearch two_resolving []
       = (Inr [mk_result ''https://a.com'' ''A'' ''google'', mk_result ''https://b.com'' ''B'' ''brave''],
          [(''google'', adapter_options two_resolving), (''brave'', adapter_options two_resolving)])"
proof -
  have v: "passes_validation two_resolving"
    by (simp add: two_resolving_def eval_defs)
  have s: "settle_all (adapter_options two_resolving) (provider_arg two_resolving) []
      = ([Inr [mk_result ''https://a.com'' ''A'' ''google''], Inr [mk_result ''https://b.com'' ''B'' ''brave'']],
         [(''google'', adapter_options two_resolving), (''brave'', adapter_options two_resolving)])"
    by (simp add: two_resolving_def mk_options_def makeProvider_def)
  have r: "\<forall>r\<in>set [Inr [mk_result ''https://a.com'' ''A'' ''google''],
                       Inr [mk_result ''https://b.com'' ''B'' ''brave'']
                       :: thrown + search_result list]. \<not> isl r"
    by simp
  show ?thesis using v all_resolved_concatenation [OF v s r] by simp
qed

text \<open>
  C1 as stated fails: in the test "returns results from a single provider" the adapter is
  named \<open>google\<close>, its results carry \<open>provider: 'test'\<close>, and \<open>webSearch\<close> returns
  them unchanged.
\<close>

theorem provider_field_counterexample:
  "fst (webSearch (mk_options (Some ''test'')
          [makeProvider ''google'' [mk_result ''https://example.com'' ''Example'' ''test''] False None]) [])
     = Inr [mk_result ''https://example.com'' ''Example'' ''test'']
   \<and> provider (mk_result ''https://example.com'' ''Example'' ''test'') \<noteq> Some ''google''"
  by (simp add: eval_defs)

subsection \<open>Some adapters reject\<close>

text \<open>
  C2 (the code at the failing input). One adapter resolves with an empty array and the other
  rejects: \<open>webSearch\<close> rejects with the "All 2 provider(s) failed" error, although one
  of the two adapters succeeded. The test \<open>allResults.length === 0 && errors.length > 0\<close>
  does not tell an empty success from a failure.
\<close>

theorem empty_success_with_failure_rejects:
  "fst (webSearch (mk_options (Some ''test'')
          [makeProvider ''google'' [] False None, makeProvider ''brave'' [] True None]) [])
   = Inl (Error (''All 2 provider(s) failed:\<newline>\<newline>''
                 @ ''Search with provider '' @ apostrophe @ ''brave'' @ apostrophe @ '' failed: brave failed''))"
  by (simp add: eval_defs)

subsection \<open>All adapters reject\<close>

text \<open>
  C3. When the call passes the two precondition checks and every adapter's search rejects,
  \<open>webSearch\<close> rejects with one error whose message contains, for every adapter, the
  adapter's name, the adapter's whole failure text (\<open>error.message\<close>, or \<open>String(error)\<close>
  for a thrown value that is not an \<open>Error\<close>), and the two together in the line
  "Search with provider '<name>' failed: <failure text>".
\<close>

theorem all_rejected_aggregate_error:
  assumes v: "passes_validation options"
    and s: "settle_all (adapter_options options) (provider_arg options) w = (rs, w')"
    and rej: "\<forall>r\<in>set rs. isl r"
  shows "\<exists>msg. webSearch options w = (Inl (Error msg), w')
     \<and> (\<forall>i<length (provider_arg options).
           str_includes msg (name (provider_arg options ! i))
         \<and> str_includes msg (message_or_String (projl (rs ! i)))
         \<and> str_includes msg
             (''Search with provider '' @ apostrophe @ name (provider_arg options ! i) @ apostrophe
                @ '' failed: '' @ message_or_String (projl (rs ! i))))"
proof -
  let ?ps = "provider_arg options"
  let ?errs = "failure_messages ?ps rs"
  let ?msg = "''All '' @ show_nat (length ?ps) @ '' provider(s) failed:\<newline>\<newline>'' @ join ?errs ''\<newline>\<newline>''"
  have len: "length rs = length ?ps" using settle_all_length [OF s] .
  from v have ne: "?ps \<noteq> []" by (simp add: passes_validation_def)
  have errs: "?errs = map (\<lambda>i. detailedErrorMessage_of (name (?ps ! i)) (projl (rs ! i))) [0..<length ?ps]"
    using failure_messages_all_rejected [OF len rej] .
  with ne have nonempty: "?errs \<noteq> []" by simp
  have none: "tagged_results ?ps rs = []" using tagged_results_all_rejected [OF rej] .
  have ws: "webSearch options w = (Inl (Error ?msg), w')"
    using webSearch_settled [OF v s] none nonempty by simp
  have inc: "str_includes ?msg (name (?ps ! i))
         \<and> str_includes ?msg (message_or_String (projl (rs ! i)))
         \<and> str_includes ?msg
             (''Search with provider '' @ apostrophe @ name (?ps ! i) @ apostrophe
                @ '' failed: '' @ message_or_String (projl (rs ! i)))" if i: "i < length ?ps" for i
  proof -
    let ?d = "detailedErrorMessage_of (name (?ps ! i)) (projl (rs ! i))"
    let ?h = "''Search with provider '' @ apostrophe @ name (?ps ! i) @ apostrophe
                @ '' failed: '' @ message_or_String (projl (rs ! i))"
    from i have "?d \<in> set ?errs" unfolding errs by auto
    then have "sublist ?d (join ?errs ''\<newline>\<newline>'')" by (rule sublist_join)
    moreover have "sublist (join ?errs ''\<newline>\<newline>'') ?msg"
      by (metis append.assoc sublist_append_leftI)
    ultimately have d: "sublist ?d ?msg" by (rule sublist_trans)
    have h: "sublist ?h ?msg" using sublist_detailedErrorMessage d by (rule sublist_trans)
    have "sublist (name (?ps ! i)) ?h"
      by (metis append.assoc sublist_appendI)
    then have n: "sublist (name (?ps ! i)) ?msg" using h by (rule sublist_trans)
    have "sublist (message_or_String (projl (rs ! i))) ?h"
      by (metis append.assoc sublist_append_leftI)
    then have m: "sublist (message_or_String (projl (rs ! i))) ?msg" using h by (rule sublist_trans)
    from n m h show ?thesis by (simp only: str_includes_sublist)
  qed
  show ?thesis using ws inc by blast
qed

theorem all_rejected_aggregate_error_witness:
  "passes_validation two_rejecting
   \<and> (\<exists>msg. fst (webSearch two_rejecting []) = Inl (Error msg)
        \<and> str_includes msg ''google'' \<and> str_includes msg ''google error''
        \<and> str_includes msg ''brave'' \<and> str_includes msg ''brave error'')"
proof -
  have v: "passes_validation two_rejecting"
    by (simp add: two_rejecting_def eval_defs)
  have s: "settle_all (adapter_options two_rejecting) (provider_arg two_rejecting) []
      = ([Inl (Error ''google error''), Inl (Error ''brave error'')],
         [(''google'', adapter_options two_rejecting), (''brave'', adapter_options two_rejecting)])"
    by (simp add: two_rejecting_def mk_options_def makeProvider_def)
  have r: "\<forall>r\<in>set [Inl (Error ''google error''), Inl (Error ''brave error'')
                       :: thrown + search_result list]. isl r"
    by simp
  from all_rejected_aggregate_error [OF v s r] obtain msg where
    both: "webSearch two_rejecting [] = (Inl (Error msg),
         [(''google'', adapter_options two_rejecting), (''brave'', adapter_options two_rejecting)])
     \<and> (\<forall>i<length (provider_arg two_rejecting).
           str_includes msg (name (provider_arg two_rejecting ! i))
         \<and> str_includes msg (message_or_String (projl (([Inl (Error ''google error''), Inl (Error ''brave error'')] :: (thrown + search_result list) list) ! i)))
         \<and> str_includes msg
             (''Search with provider '' @ apostrophe @ name (provider_arg two_rejecting ! i) @ apostrophe
                @ '' failed: '' @ message_or_String (projl (([Inl (Error ''google error''), Inl (Error ''brave error'')] :: (thrown + search_result list) list) ! i))))"
    ..
  note ws = both [THEN conjunct1] and inc = both [THEN conjunct2]
  have n0: "name (provider_arg two_rejecting ! 0) = ''google''"
    and n1: "name (provider_arg two_rejecting ! Suc 0) = ''brave''"
    and l0: "0 < length (provider_arg two_rejecting)"
    and l1: "Suc 0 < length (provider_arg two_rejecting)"
    by (simp_all add: two_rejecting_def mk_options_def makeProvider_def)
  from inc [rule_format, OF l0] have i0: "str_includes msg ''google'' \<and> str_includes msg ''google error''"
    by (simp add: n0)
  from inc [rule_format, OF l1] have i1: "str_includes msg ''brave'' \<and> str_includes msg ''brave error''"
    by (simp add: n1)
  from i0 i1 have "str_includes msg ''google'' \<and> str_includes msg ''google error''
        \<and> str_includes msg ''brave'' \<and> str_includes msg ''brave error''"
    by simp
  with ws v show ?thesis by (intro conjI exI [of _ msg]) simp_all
qed


subsection \<open>The query check\<close>

text \<open>
  C4 (the code at the failing input). With the query \<open>'   '\<close> and one adapter named
  \<open>google\<close>, \<open>webSearch\<close> does not reject: it calls the adapter's search once, with the
  blank query, and resolves with the adapter's (empty) results. The test "throws if query
  is only whitespace" expects the "query or ID list required" error here.
\<close>

theorem whitespace_query_is_searched:
  "webSearch (mk_options (Some ''   '') [makeProvider ''google'' [] False None]) []
   = (Inr [], [(''google'', search_options.truncate (mk_options (Some ''   '') []))])"
  by (simp add: eval_defs)

text \<open>
  The part of C4 the code does implement: a query that is missing or the empty string, with
  no usable ID list, is rejected before any adapter is called (the world is unchanged,
  whatever the adapters' search functions are).
\<close>

lemma webSearch_requires_query:
  assumes "provider_arg options \<noteq> []"
    and "\<not> truthy (query options)"
    and "\<not> (list_ex (\<lambda>p. name p = ''arxiv'') (provider_arg options) \<and> truthy (idList options))"
  shows "webSearch options w = (Inl (Error ''A search query or ID list (for Arxiv) is required''), w)"
  using assms by (simp add: webSearch_def Let_def)

subsection \<open>The per-adapter outcome\<close>

text \<open>
  C9 (as amended). Every per-adapter promise inside \<open>webSearch\<close> resolves with an object
  that carries the adapter's name, a results list and an error field together. When the
  adapter's search resolved, the results are the adapter's and the error is null; when it
  rejected, the error is set and the results list is the empty array. So an error never
  comes with a non-empty results list.
\<close>

theorem outcome_results_and_error:
  "\<exists>out. fst (searchPromise options p w) = Inr out
     \<and> outcome_provider out = name p
     \<and> (case fst (search p (adapter_options options) w) of
          Inr xs \<Rightarrow> outcome_results out = xs \<and> outcome_error out = None
        | Inl e \<Rightarrow> outcome_results out = []
                   \<and> outcome_error out = Some (detailedErrorMessage_of (name p) e))
     \<and> (outcome_error out = None \<or> outcome_results out = [])"
proof (cases "search p (adapter_options options) w")
  case (Pair r w1)
  show ?thesis
  proof (cases r)
    case (Inl e)
    with Pair show ?thesis by (simp add: searchPromise_rejected)
  next
    case (Inr xs)
    with Pair show ?thesis by (simp add: searchPromise_resolved)
  qed
qed

theorem outcome_results_and_error_witness:
  "fst (searchPromise (mk_options (Some ''test'') []) (makeProvider ''google'' [mk_result ''https://a.com'' ''A'' ''google''] False None) [])
    = Inr \<lparr>outcome_provider = ''google'', outcome_results = [mk_result ''https://a.com'' ''A'' ''google''],
           outcome_error = None\<rparr>"
  using outcome_results_and_error [of "mk_options (Some ''test'') []"
     "makeProvider ''google'' [mk_result ''https://a.com'' ''A'' ''google''] False None" "[]"]
  by (auto simp: makeProvider_def adapter_options_def)

text \<open>
  C9 as stated fails: the outcome of a rejecting adapter carries both a results list (the
  empty array) and an error.
\<close>

theorem outcome_both_counterexample:
  "fst (searchPromise (mk_options (Some ''test'') []) (makeProvider ''brave'' [] True None) [])
   = Inr \<lparr>outcome_provider = ''brave'', outcome_results = [],
          outcome_error = Some (''Search with provider '' @ apostrophe @ ''brave'' @ apostrophe @ '' failed: brave failed'')\<rparr>"
  by (simp add: eval_defs)

subsection \<open>The adapters: the path on which the transport resolves\<close>

lemmas debug_returns = debug_log_returns debug_logRequest_returns debug_logResponse_returns

lemma perplexity_search_success:
  assumes "query options = Some q" and "q \<noteq> []"
    and "post baseUrl (JObj (perplexity_requestBody cfg options q))
           (perplexity_request_init cfg options) w = (Inr response, w')"
  shows "perplexity_search post h cfg baseUrl options w
     = (Inr (map (perplexity_to_result h)
              (case px_results response of None \<Rightarrow> [] | Some rs \<Rightarrow> rs)), w')"
  using assms
  by (simp add: perplexity_search_def perplexity_try_def Let_def debug_returns split: option.splits)

lemma perplexity_search_resolved_inv:
  assumes "perplexity_search post h cfg baseUrl options w = (Inr out, w')"
  shows "\<exists>rs. out = map (perplexity_to_result h) rs"
proof -
  from assms obtain q where q: "query options = Some q" "q \<noteq> []"
    by (auto simp: perplexity_search_def Let_def split: option.splits if_splits)
  obtain settled w1 where p: "post baseUrl (JObj (perplexity_requestBody cfg options q))
           (perplexity_request_init cfg options) w = (settled, w1)"
    by (cases "post baseUrl (JObj (perplexity_requestBody cfg options q))
           (perplexity_request_init cfg options) w")
  show ?thesis
  proof (cases settled)
    case (Inl e)
    with assms q p show ?thesis
      by (simp add: perplexity_search_def perplexity_try_def Let_def debug_returns split: prod.splits)
  next
    case (Inr response)
    with p have p': "post baseUrl (JObj (perplexity_requestBody cfg options q))
           (perplexity_request_init cfg options) w = (Inr response, w1)" by simp
    from perplexity_search_success [where post = post and cfg = cfg and baseUrl = baseUrl and w = w and h = h, OF q(1) q(2) p'] assms show ?thesis by auto
  qed
qed

lemma parallel_search_success:
  assumes "query options = Some q" and "q \<noteq> []" and "trim q \<noteq> []"
    and "post baseUrl (JObj (parallel_requestBody cfg options q))
           (parallel_request_init cfg options) w = (Inr response, w')"
  shows "parallel_search post h cfg baseUrl options w
     = (Inr (map (parallel_to_result h)
              (case pl_results response of None \<Rightarrow> [] | Some rs \<Rightarrow> rs)), w')"
  using assms
  by (simp add: parallel_search_def parallel_try_def Let_def debug_returns split: option.splits)

lemma parallel_search_resolved_inv:
  assumes "parallel_search post h cfg baseUrl options w = (Inr out, w')"
  shows "\<exists>rs. out = map (parallel_to_result h) rs"
proof -
  from assms obtain q where q: "query options = Some q" "q \<noteq> []" "trim q \<noteq> []"
    by (auto simp: parallel_search_def Let_def split: option.splits if_splits)
  obtain settled w1 where p: "post baseUrl (JObj (parallel_requestBody cfg options q))
           (parallel_request_init cfg options) w = (settled, w1)"
    by (cases "post baseUrl (JObj (parallel_requestBody cfg options q))
           (parallel_request_init cfg options) w")
  show ?thesis
  proof (cases settled)
    case (Inl e)
    with assms q p show ?thesis
      by (simp add: parallel_search_def parallel_try_def Let_def debug_returns split: prod.splits)
  next
    case (Inr response)
    with p have p': "post baseUrl (JObj (parallel_requestBody cfg options q))
           (parallel_request_init cfg options) w = (Inr response, w1)" by simp
    from parallel_search_success [where post = post and cfg = cfg and baseUrl = baseUrl and w = w and h = h, OF q(1) q(2) q(3) p'] assms show ?thesis by auto
  qed
qed

lemma map_throwing_resolved:
  "map_throwing f xs = Inr ys \<Longrightarrow> length ys = length xs \<and> (\<forall>i<length xs. f (xs ! i) = Inr (ys ! i))"
proof (induction xs arbitrary: ys)
  case Nil
  then show ?case by simp
next
  case (Cons x xs)
  then show ?case
    by (auto split: sum.splits simp: nth_Cons split: nat.splits)
qed

lemma arxiv_search_success:
  assumes "truthy (query options) \<or> truthy (idList options)"
    and "get (arxiv_request_url pf baseUrl options) (timeout options) w = (Inr text, w')"
    and "XMLParser_parse pf text = Inr doc"
  shows "arxiv_search get pf baseUrl options w
     = (case map_throwing arxiv_to_result
               (case doc of None \<Rightarrow> []
                | Some d \<Rightarrow> (case feed d of None \<Rightarrow> []
                              | Some fd \<Rightarrow> (case feed_entry fd of None \<Rightarrow> [] | Some es \<Rightarrow> es))) of
          Inr results \<Rightarrow> (Inr results, w')
        | Inl e \<Rightarrow> (Inl (Error (arxiv_errorMessage pf e)), w'))"
  using assms
  by (auto simp add: arxiv_search_def arxiv_try_def Let_def debug_returns split: option.splits sum.splits)

lemma arxiv_search_resolved_inv:
  assumes "arxiv_search get pf baseUrl options w = (Inr out, w')"
  shows "\<exists>es. map_throwing arxiv_to_result es = Inr out"
proof -
  from assms have q: "truthy (query options) \<or> truthy (idList options)"
    by (auto simp: arxiv_search_def Let_def split: if_splits)
  obtain settled w1 where g: "get (arxiv_request_url pf baseUrl options) (timeout options) w = (settled, w1)"
    by (cases "get (arxiv_request_url pf baseUrl options) (timeout options) w")
  show ?thesis
  proof (cases settled)
    case (Inl e)
    with assms q g show ?thesis
      by (auto simp add: arxiv_search_def arxiv_try_def Let_def debug_returns)
  next
    case (Inr xml)
    note t = this
    show ?thesis
    proof (cases "XMLParser_parse pf xml")
      case (Inl e)
      with assms q g t show ?thesis
        by (auto simp add: arxiv_search_def arxiv_try_def Let_def debug_returns)
    next
      case (Inr doc)
      note g' = g [unfolded t]
      from arxiv_search_success [where get = get and pf = pf and baseUrl = baseUrl and w = w, OF q g' Inr] assms
      show ?thesis by (auto split: sum.splits)
    qed
  qed
qed


lemma created_perplexity_search:
  "createPerplexityProvider post h cfg = Inr p \<Longrightarrow>
   search p = perplexity_search post h cfg (perplexity_baseUrl cfg) \<and> name p = ''perplexity''"
  by (auto simp: createPerplexityProvider_def Let_def split: if_splits)

lemma created_parallel_search:
  "createParallelProvider post h cfg = Inr p \<Longrightarrow>
   search p = parallel_search post h cfg (parallel_baseUrl cfg) \<and> name p = ''parallel''"
  by (auto simp: createParallelProvider_def Let_def split: if_splits)

lemma created_arxiv_search:
  "search (createArxivProvider get pf cfg) = arxiv_search get pf (arxiv_baseUrl cfg)
   \<and> name (createArxivProvider get pf cfg) = ''arxiv''"
  by (simp add: createArxivProvider_def Let_def)

lemma arxiv_to_result_fields:
  "arxiv_to_result n = Inr r \<Longrightarrow>
   raw r = Some (ArxivRaw n) \<and> domain r = None \<and> provider r = Some ''arxiv''
   \<and> (\<exists>t. ae_title n = Some t \<and> title r = Some (trim (replace_newline_runs t)))
   \<and> (url r = ae_id n \<or> (\<exists>l. l \<noteq> [] \<and> url r = Some l))"
  by (auto simp: arxiv_to_result_def Let_def split: option.splits if_splits)

lemma arxiv_results_fields:
  assumes "arxiv_search get pf baseUrl options w = (Inr out, w')" and "r \<in> set out"
  shows "\<exists>n. arxiv_to_result n = Inr r"
proof -
  from arxiv_search_resolved_inv [OF assms(1)] obtain es where
    m: "map_throwing arxiv_to_result es = Inr out" by blast
  from assms(2) obtain i where i: "i < length out" "out ! i = r"
    by (auto simp: in_set_conv_nth)
  from map_throwing_resolved [OF m] i have "arxiv_to_result (es ! i) = Inr r" by auto
  then show ?thesis by blast
qed








text \<open>
  The three adapters of the sources set \<open>provider\<close> to their own name on every result.
\<close>

lemma builtin_adapters_stamp_name:
  "(createPerplexityProvider post1 h cfg1 = Inr p1 \<and> search p1 options w = (Inr out1, w1)
      \<longrightarrow> (\<forall>r\<in>set out1. provider r = Some (name p1)))
   \<and> (createParallelProvider post2 h cfg2 = Inr p2 \<and> search p2 options w = (Inr out2, w2)
      \<longrightarrow> (\<forall>r\<in>set out2. provider r = Some (name p2)))
   \<and> (search (createArxivProvider get pf cfg3) options w = (Inr out3, w3)
      \<longrightarrow> (\<forall>r\<in>set out3. provider r = Some (name (createArxivProvider get pf cfg3))))"
proof (intro conjI impI)
  assume a: "createPerplexityProvider post1 h cfg1 = Inr p1 \<and> search p1 options w = (Inr out1, w1)"
  then have "perplexity_search post1 h cfg1 (perplexity_baseUrl cfg1) options w = (Inr out1, w1)"
    using created_perplexity_search [of post1 h cfg1 p1] by simp
  from perplexity_search_resolved_inv [OF this] obtain rs where
    "out1 = map (perplexity_to_result h) rs" by blast
  with a created_perplexity_search [of post1 h cfg1 p1]
  show "\<forall>r\<in>set out1. provider r = Some (name p1)"
    by (auto simp: perplexity_to_result_def)
next
  assume a: "createParallelProvider post2 h cfg2 = Inr p2 \<and> search p2 options w = (Inr out2, w2)"
  then have "parallel_search post2 h cfg2 (parallel_baseUrl cfg2) options w = (Inr out2, w2)"
    using created_parallel_search [of post2 h cfg2 p2] by simp
  from parallel_search_resolved_inv [OF this] obtain rs where
    "out2 = map (parallel_to_result h) rs" by blast
  with a created_parallel_search [of post2 h cfg2 p2]
  show "\<forall>r\<in>set out2. provider r = Some (name p2)"
    by (auto simp: parallel_to_result_def Let_def)
next
  assume a: "search (createArxivProvider get pf cfg3) options w = (Inr out3, w3)"
  then have s: "arxiv_search get pf (arxiv_baseUrl cfg3) options w = (Inr out3, w3)"
    by (simp add: created_arxiv_search)
  show "\<forall>r\<in>set out3. provider r = Some (name (createArxivProvider get pf cfg3))"
  proof
    fix r assume "r \<in> set out3"
    from arxiv_results_fields [OF s this] obtain n where n: "arxiv_to_result n = Inr r" by blast
    from arxiv_to_result_fields [OF n] show "provider r = Some (name (createArxivProvider get pf cfg3))"
      by (simp add: created_arxiv_search)
  qed
qed

subsection \<open>Unconfigured module-level objects\<close>

text \<open>
  C5. For the module-level objects \<open>perplexity\<close>, \<open>parallel\<close> and \<open>arxiv\<close>, for every
  options value and every world: \<open>search\<close> rejects with an \<open>Error\<close> whose message contains
  "must be configured", and the world is left as it was (the object has no transport to
  call, so there is no network I/O). A handle returned by \<open>configure\<close> does perform a
  search: with a transport that answers, it calls the transport and resolves.
\<close>

theorem unconfigured_search_rejects:
  "(\<exists>m. search perplexity options w = (Inl (Error m), w) \<and> str_includes m ''must be configured'')
   \<and> (\<exists>m. search parallel_singleton options w = (Inl (Error m), w) \<and> str_includes m ''must be configured'')
   \<and> (\<exists>m. search arxiv options w = (Inl (Error m), w) \<and> str_includes m ''must be configured'')
   \<and> (\<exists>p. perplexity_configure (mock_post \<lparr>px_results = Some [px_good]\<rparr>) sample_hostname
               sample_perplexity_config = Inr p
          \<and> search p sample_search_options []
              = (Inr [perplexity_to_result sample_hostname px_good], [perplexity_DEFAULT_BASE_URL]))"
proof (intro conjI)
  show "\<exists>m. search perplexity options w = (Inl (Error m), w) \<and> str_includes m ''must be configured''"
    by (simp add: perplexity_def)
  show "\<exists>m. search parallel_singleton options w = (Inl (Error m), w) \<and> str_includes m ''must be configured''"
    by (simp add: parallel_singleton_def)
  show "\<exists>m. search arxiv options w = (Inl (Error m), w) \<and> str_includes m ''must be configured''"
    by (simp add: arxiv_def)
  show "\<exists>p. perplexity_configure (mock_post \<lparr>px_results = Some [px_good]\<rparr>) sample_hostname
               sample_perplexity_config = Inr p
          \<and> search p sample_search_options []
              = (Inr [perplexity_to_result sample_hostname px_good], [perplexity_DEFAULT_BASE_URL])"
    by (simp add: perplexity_configure_def createPerplexityProvider_def sample_perplexity_config_def
          perplexity_search_def perplexity_try_def Let_def debug_returns mock_post_def
          sample_search_options_def mk_options_def search_options.truncate_def
          perplexity_baseUrl_def)
qed

theorem unconfigured_search_rejects_witness:
  "fst (search perplexity sample_search_options ([] :: string list))
     = Inl (Error ''Perplexity provider must be configured before use. Call perplexity.configure() first.'')
   \<and> snd (search perplexity sample_search_options ([] :: string list)) = []"
  using unconfigured_search_rejects [of sample_search_options "[] :: string list"]
  by (simp add: perplexity_def)

subsection \<open>A response with no native results\<close>

text \<open>
  C7. For each adapter (Perplexity, Parallel, Arxiv): when the query passes the adapter's own
  check and the transport resolves with a response whose native result list is missing or
  empty, \<open>search\<close> resolves with the empty array; it does not reject.
\<close>

theorem empty_native_list_resolves_empty:
  "(createPerplexityProvider post1 h cfg1 = Inr p1 \<and> query options = Some q \<and> q \<noteq> []
      \<and> post1 (perplexity_baseUrl cfg1) (JObj (perplexity_requestBody cfg1 options q))
            (perplexity_request_init cfg1 options) w = (Inr r1, w')
      \<and> perplexity_native_results r1 = []
      \<longrightarrow> search p1 options w = (Inr [], w'))
   \<and> (createParallelProvider post2 h cfg2 = Inr p2 \<and> query options = Some q \<and> trim q \<noteq> []
      \<and> post2 (parallel_baseUrl cfg2) (JObj (parallel_requestBody cfg2 options q))
            (parallel_request_init cfg2 options) w = (Inr r2, w')
      \<and> parallel_native_results r2 = []
      \<longrightarrow> search p2 options w = (Inr [], w'))
   \<and> ((truthy (query options) \<or> truthy (idList options))
      \<and> get (arxiv_request_url pf (arxiv_baseUrl cfg3) options) (timeout options) w = (Inr body, w')
      \<and> XMLParser_parse pf body = Inr doc
      \<and> arxiv_native_results doc = []
      \<longrightarrow> search (createArxivProvider get pf cfg3) options w = (Inr [], w'))"
proof (intro conjI impI)
  assume a: "createPerplexityProvider post1 h cfg1 = Inr p1 \<and> query options = Some q \<and> q \<noteq> []
      \<and> post1 (perplexity_baseUrl cfg1) (JObj (perplexity_requestBody cfg1 options q))
            (perplexity_request_init cfg1 options) w = (Inr r1, w')
      \<and> perplexity_native_results r1 = []"
  then have p: "search p1 = perplexity_search post1 h cfg1 (perplexity_baseUrl cfg1)"
    by (auto simp: createPerplexityProvider_def Let_def split: if_splits)
  from a have q1: "query options = Some q" and q2: "q \<noteq> []"
    and q3: "post1 (perplexity_baseUrl cfg1) (JObj (perplexity_requestBody cfg1 options q))
            (perplexity_request_init cfg1 options) w = (Inr r1, w')" by simp_all
  have "perplexity_search post1 h cfg1 (perplexity_baseUrl cfg1) options w
     = (Inr (map (perplexity_to_result h) (perplexity_native_results r1)), w')"
    unfolding perplexity_native_results_def
    using perplexity_search_success [where post = post1 and cfg = cfg1 and h = h
        and baseUrl = "perplexity_baseUrl cfg1" and w = w, OF q1 q2 q3] .
  with a p show "search p1 options w = (Inr [], w')" by simp
next
  assume a: "createParallelProvider post2 h cfg2 = Inr p2 \<and> query options = Some q \<and> trim q \<noteq> []
      \<and> post2 (parallel_baseUrl cfg2) (JObj (parallel_requestBody cfg2 options q))
            (parallel_request_init cfg2 options) w = (Inr r2, w')
      \<and> parallel_native_results r2 = []"
  then have p: "search p2 = parallel_search post2 h cfg2 (parallel_baseUrl cfg2)"
    by (auto simp: createParallelProvider_def Let_def split: if_splits)
  from a have q: "q \<noteq> []" by (auto simp: trim_def)
  from a have q1: "query options = Some q" and q2: "trim q \<noteq> []"
    and q3: "post2 (parallel_baseUrl cfg2) (JObj (parallel_requestBody cfg2 options q))
            (parallel_request_init cfg2 options) w = (Inr r2, w')" by simp_all
  have "parallel_search post2 h cfg2 (parallel_baseUrl cfg2) options w
     = (Inr (map (parallel_to_result h) (parallel_native_results r2)), w')"
    unfolding parallel_native_results_def
    using parallel_search_success [where post = post2 and cfg = cfg2 and h = h
        and baseUrl = "parallel_baseUrl cfg2" and w = w, OF q1 q q2 q3] .
  with a p show "search p2 options w = (Inr [], w')" by simp
next
  assume a: "(truthy (query options) \<or> truthy (idList options))
      \<and> get (arxiv_request_url pf (arxiv_baseUrl cfg3) options) (timeout options) w = (Inr body, w')
      \<and> XMLParser_parse pf body = Inr doc
      \<and> arxiv_native_results doc = []"
  have p: "search (createArxivProvider get pf cfg3) = arxiv_search get pf (arxiv_baseUrl cfg3)"
    by (simp add: createArxivProvider_def Let_def)
  from a have q1: "truthy (query options) \<or> truthy (idList options)"
    and q2: "get (arxiv_request_url pf (arxiv_baseUrl cfg3) options) (timeout options) w = (Inr body, w')"
    and q3: "XMLParser_parse pf body = Inr doc" by simp_all
  have "arxiv_search get pf (arxiv_baseUrl cfg3) options w
     = (case map_throwing arxiv_to_result (arxiv_native_results doc) of
          Inr results \<Rightarrow> (Inr results, w')
        | Inl e \<Rightarrow> (Inl (Error (arxiv_errorMessage pf e)), w'))"
    unfolding arxiv_native_results_def
    using arxiv_search_success [where get = get and pf = pf
        and baseUrl = "arxiv_baseUrl cfg3" and w = w, OF q1 q2 q3] .
  with a p show "search (createArxivProvider get pf cfg3) options w = (Inr [], w')" by simp
qed

theorem empty_native_list_resolves_empty_witness:
  "search (projr (createPerplexityProvider (mock_post \<lparr>px_results = None\<rparr>) sample_hostname
             sample_perplexity_config)) sample_search_options []
     = (Inr [], [perplexity_DEFAULT_BASE_URL])
   \<and> search (projr (createParallelProvider (mock_post (parallel_response (Some []))) sample_hostname
             sample_parallel_config)) sample_search_options []
     = (Inr [], [parallel_DEFAULT_BASE_URL])
   \<and> fst (search (createArxivProvider (mock_get ''<feed/>'') (sample_platform (arxiv_document None))
             sample_arxiv_config) sample_search_options [])
     = Inr []"
proof -
  have c1: "createPerplexityProvider (mock_post \<lparr>px_results = None\<rparr>) sample_hostname
      sample_perplexity_config
    = Inr (projr (createPerplexityProvider (mock_post \<lparr>px_results = None\<rparr>) sample_hostname
      sample_perplexity_config))"
    by (simp add: createPerplexityProvider_def sample_perplexity_config_def)
  have c2: "createParallelProvider (mock_post (parallel_response (Some []))) sample_hostname
      sample_parallel_config
    = Inr (projr (createParallelProvider (mock_post (parallel_response (Some []))) sample_hostname
      sample_parallel_config))"
    by (simp add: createParallelProvider_def sample_parallel_config_def)
  have q: "query sample_search_options = Some ''test''" "''test'' \<noteq> []" "trim ''test'' \<noteq> []"
    "truthy (query sample_search_options) \<or> truthy (idList sample_search_options)"
    by (simp_all add: sample_search_options_def trim_def is_white_space_def)
  have n: "perplexity_native_results \<lparr>px_results = None\<rparr> = []"
    "parallel_native_results (parallel_response (Some [])) = []"
    "arxiv_native_results (arxiv_document None) = []"
    by (simp_all add: perplexity_native_results_def parallel_native_results_def
          arxiv_native_results_def parallel_response_def arxiv_document_def)
  have x: "XMLParser_parse (sample_platform (arxiv_document None)) ''<feed/>'' = Inr (arxiv_document None)"
    by (simp add: sample_platform_def)
  note t = empty_native_list_resolves_empty
    [where ?post1.0 = "mock_post \<lparr>px_results = None\<rparr>" and h = sample_hostname
       and ?cfg1.0 = sample_perplexity_config and options = sample_search_options and q = "''test''"
       and w = "[]" and ?r1.0 = "\<lparr>px_results = None\<rparr>"
       and ?post2.0 = "mock_post (parallel_response (Some []))" and ?cfg2.0 = sample_parallel_config
       and ?r2.0 = "parallel_response (Some [])"
       and get = "mock_get ''<feed/>''" and pf = "sample_platform (arxiv_document None)"
       and ?cfg3.0 = sample_arxiv_config and body = "''<feed/>''" and doc = "arxiv_document None"]
  show ?thesis
    using c1 c2 q n x t
    by (simp add: mock_post_def mock_get_def perplexity_baseUrl_def parallel_baseUrl_def
          sample_perplexity_config_def sample_parallel_config_def)
qed

subsection \<open>A native URL that does not parse\<close>



subsection \<open>The url and title of a result\<close>




end
